theory Spec2Isabelle
  imports Main
begin

section \<open>Python values and string operations used by the launcher\<close>

text \<open>
  The launcher \<^verbatim>\<open>Runtime/pyrun_template.py\<close> is a Python 2 script. Byte strings are
  modelled as \<^typ>\<open>string\<close>, lists as HOL lists, and the integer option globals as
  \<^typ>\<open>int\<close>. The string methods it calls are written out below.
\<close>

definition startswith :: "string \<Rightarrow> string \<Rightarrow> bool" where
  "startswith s p = (take (length p) s = p)"

definition endswith :: "string \<Rightarrow> string \<Rightarrow> bool" where
  "endswith s p = (length p \<le> length s \<and> drop (length s - length p) s = p)"

text \<open>\<^verbatim>\<open>str.strip()\<close> removes the ASCII whitespace characters at both ends.\<close>

definition isspace :: "char \<Rightarrow> bool" where
  "isspace c = (c = CHR '' '' \<or> c = CHR 0x09 \<or> c = CHR 0x0A \<or> c = CHR 0x0B
                \<or> c = CHR 0x0C \<or> c = CHR 0x0D)"

definition strip :: "string \<Rightarrow> string" where
  "strip s = rev (dropWhile isspace (rev (dropWhile isspace s)))"

text \<open>\<^verbatim>\<open>s.split(sep)\<close> for a one-character separator: always at least one field.\<close>

fun split_sep :: "char \<Rightarrow> string \<Rightarrow> string list" where
  "split_sep sep [] = [[]]"
| "split_sep sep (c # cs) =
     (if c = sep then [] # split_sep sep cs
      else (case split_sep sep cs of
              [] \<Rightarrow> [[c]]
            | w # ws \<Rightarrow> (c # w) # ws))"

text \<open>\<^verbatim>\<open>str.splitlines()\<close>: lines end at LF, CR or CR LF; no empty last line.\<close>

fun splitlines_from :: "string \<Rightarrow> string \<Rightarrow> string list" where
  "splitlines_from cur [] = (if cur = [] then [] else [cur])"
| "splitlines_from cur (c # cs) =
     (if c = CHR 0x0A then cur # splitlines_from [] cs
      else if c = CHR 0x0D then
        (case cs of
           [] \<Rightarrow> [cur]
         | d # ds \<Rightarrow> (if d = CHR 0x0A then cur # splitlines_from [] ds
                      else cur # splitlines_from [] cs))
      else splitlines_from (cur @ [c]) cs)"

definition splitlines :: "string \<Rightarrow> string list" where
  "splitlines s = splitlines_from [] s"

text \<open>
  \<^verbatim>\<open>'%r' % s\<close> for a byte string: single quotes, unless the string has a single quote
  and no double quote; backslash, the quote, tab, LF and CR are escaped, every other
  byte outside the printable ASCII range is written \<^verbatim>\<open>\xNN\<close>.
\<close>

definition hexdigit :: "nat \<Rightarrow> char" where
  "hexdigit n = ''0123456789abcdef'' ! (n mod 16)"

definition repr_char :: "char \<Rightarrow> char \<Rightarrow> string" where
  "repr_char quote c =
     (if c = quote \<or> c = CHR 0x5C then [CHR 0x5C, c]
      else if c = CHR 0x09 then [CHR 0x5C, CHR ''t'']
      else if c = CHR 0x0A then [CHR 0x5C, CHR ''n'']
      else if c = CHR 0x0D then [CHR 0x5C, CHR ''r'']
      else if (of_char c :: nat) < 32 \<or> (of_char c :: nat) \<ge> 127 then
        [CHR 0x5C, CHR ''x'', hexdigit ((of_char c :: nat) div 16), hexdigit (of_char c :: nat)]
      else [c])"

definition py_repr :: "string \<Rightarrow> string" where
  "py_repr s =
     (let quote = (if CHR 0x27 \<in> set s \<and> CHR 0x22 \<notin> set s then CHR 0x22 else CHR 0x27)
      in [quote] @ concat (map (repr_char quote) s) @ [quote])"

fun join_with :: "string \<Rightarrow> string list \<Rightarrow> string" where
  "join_with sep [] = []"
| "join_with sep [x] = x"
| "join_with sep (x # y # ys) = x @ sep @ join_with sep (y # ys)"

definition repr_list :: "string list \<Rightarrow> string" where
  "repr_list xs = ''['' @ join_with '', '' (map py_repr xs) @ '']''"

fun digits :: "nat \<Rightarrow> string" where
  "digits n = (if n < 10 then [''0123456789'' ! n]
               else digits (n div 10) @ [''0123456789'' ! (n mod 10)])"

definition repr_int :: "int \<Rightarrow> string" where
  "repr_int i = (if i < 0 then CHR ''-'' # digits (nat (- i)) else digits (nat i))"

section \<open>The standard library's \<^verbatim>\<open>getopt.getopt\<close>\<close>

text \<open>
  \<^verbatim>\<open>pyrun_parse_cmdline\<close> calls \<^verbatim>\<open>getopt.getopt(sys.argv[1:], valid_options)\<close>, with no
  long options. A \<^verbatim>\<open>GetoptError\<close> is the left injection, carrying its message.
\<close>

type_synonym optlist = "(string \<times> string) list"

fun short_has_arg :: "char \<Rightarrow> string \<Rightarrow> string + bool" where
  "short_has_arg opt [] = Inl (''option -'' @ [opt] @ '' not recognized'')"
| "short_has_arg opt (c # shortopts) =
     (if opt = c \<and> c \<noteq> CHR '':'' then Inr (startswith shortopts '':'')
      else short_has_arg opt shortopts)"

fun do_shorts :: "optlist \<Rightarrow> string \<Rightarrow> string \<Rightarrow> string list \<Rightarrow> string + (optlist \<times> string list)" where
  "do_shorts opts [] shortopts args = Inr (opts, args)"
| "do_shorts opts (opt # optstring) shortopts args =
     (case short_has_arg opt shortopts of
        Inl reason \<Rightarrow> Inl reason
      | Inr has_arg \<Rightarrow>
          (if has_arg then
             (if optstring = [] then
                (case args of
                   [] \<Rightarrow> Inl (''option -'' @ [opt] @ '' requires argument'')
                 | a # args' \<Rightarrow> Inr (opts @ [(CHR ''-'' # [opt], a)], args'))
              else Inr (opts @ [(CHR ''-'' # [opt], optstring)], args))
           else do_shorts (opts @ [(CHR ''-'' # [opt], [])]) optstring shortopts args))"

text \<open>
  With an empty list of long options, \<^verbatim>\<open>long_has_args\<close> finds no possibility and
  \<^verbatim>\<open>do_longs\<close> always raises, naming the option up to its first \<^verbatim>\<open>=\<close>.
\<close>

definition do_longs :: "optlist \<Rightarrow> string \<Rightarrow> string list \<Rightarrow> string + (optlist \<times> string list)" where
  "do_longs opts opt args =
     Inl (''option --'' @ takeWhile (\<lambda>c. c \<noteq> CHR ''='') opt @ '' not recognized'')"

function getopt_loop :: "optlist \<Rightarrow> string list \<Rightarrow> string \<Rightarrow> string + (optlist \<times> string list)" where
  "getopt_loop opts [] shortopts = Inr (opts, [])"
| "getopt_loop opts (a # args) shortopts =
     (if startswith a ''-'' \<and> a \<noteq> ''-'' then
        (if a = ''--'' then Inr (opts, args)
         else if startswith a ''--'' then
           (case do_longs opts (drop 2 a) args of
              Inl reason \<Rightarrow> Inl reason
            | Inr (opts', args') \<Rightarrow> getopt_loop opts' args' shortopts)
         else
           (case do_shorts opts (drop 1 a) shortopts args of
              Inl reason \<Rightarrow> Inl reason
            | Inr (opts', args') \<Rightarrow> getopt_loop opts' args' shortopts))
      else Inr (opts, a # args))"
  by pat_completeness auto
termination
proof (relation "measure (\<lambda>(opts, args, shortopts). length args)")
  have shorter: "length args' \<le> length args"
    if "do_shorts opts optstring shortopts args = Inr (opts', args')"
    for opts optstring shortopts args opts' args'
    using that
    by (induction optstring arbitrary: opts) (auto split: sum.splits if_splits list.splits)
  show "wf (measure (\<lambda>(opts, args, shortopts). length args))" by simp
  show "((x, y, shortopts), opts, a # args, shortopts)
          \<in> measure (\<lambda>(opts, args, shortopts). length args)"
    if "do_longs opts (drop 2 a) args = Inr x2"
    for opts a args shortopts x2 x y
    using that by (simp add: do_longs_def)
  show "((x, y, shortopts), opts, a # args, shortopts)
          \<in> measure (\<lambda>(opts, args, shortopts). length args)"
    if "do_shorts opts (drop 1 a) shortopts args = Inr x2" and "(x, y) = x2"
    for opts a args shortopts x2 x y
    using that shorter [of opts "drop 1 a" shortopts args x y] by simp
qed

definition getopt :: "string list \<Rightarrow> string \<Rightarrow> string + (optlist \<times> string list)" where
  "getopt args shortopts = getopt_loop [] args shortopts"

section \<open>The standard library's \<^verbatim>\<open>os.path\<close> on a POSIX system\<close>

text \<open>
  The launcher runs on Unix systems: \<^verbatim>\<open>os.sep\<close> is \<^verbatim>\<open>/\<close> and \<^verbatim>\<open>os.pathsep\<close> is \<^verbatim>\<open>:\<close>.
  \<^verbatim>\<open>join\<close>, \<^verbatim>\<open>split\<close>, \<^verbatim>\<open>normpath\<close> and \<^verbatim>\<open>abspath\<close> are the functions of \<^verbatim>\<open>posixpath\<close>;
  the current directory is an argument of \<open>abspath\<close>.
\<close>

definition isabs :: "string \<Rightarrow> bool" where
  "isabs s = startswith s ''/''"

definition join_step :: "string \<Rightarrow> string \<Rightarrow> string" where
  "join_step path b =
     (if startswith b ''/'' then b
      else if path = [] \<or> endswith path ''/'' then path @ b
      else path @ ''/'' @ b)"

definition path_join :: "string \<Rightarrow> string list \<Rightarrow> string" where
  "path_join a p = foldl join_step a p"

definition path_split :: "string \<Rightarrow> string \<times> string" where
  "path_split p =
     (let head = rev (dropWhile (\<lambda>c. c \<noteq> CHR ''/'') (rev p));
          tail = rev (takeWhile (\<lambda>c. c \<noteq> CHR ''/'') (rev p));
          head' = (if head \<noteq> [] \<and> head \<noteq> replicate (length head) CHR ''/''
                   then rev (dropWhile (\<lambda>c. c = CHR ''/'') (rev head)) else head)
      in (head', tail))"

fun normpath_comps :: "bool \<Rightarrow> string list \<Rightarrow> string list \<Rightarrow> string list" where
  "normpath_comps initial_slashes new_comps [] = new_comps"
| "normpath_comps initial_slashes new_comps (cmp # comps) =
     (if cmp = [] \<or> cmp = ''.'' then normpath_comps initial_slashes new_comps comps
      else if cmp \<noteq> ''..'' \<or> (\<not> initial_slashes \<and> new_comps = [])
              \<or> (new_comps \<noteq> [] \<and> last new_comps = ''..'')
        then normpath_comps initial_slashes (new_comps @ [cmp]) comps
      else if new_comps \<noteq> [] then normpath_comps initial_slashes (butlast new_comps) comps
      else normpath_comps initial_slashes new_comps comps)"

definition normpath :: "string \<Rightarrow> string" where
  "normpath path =
     (if path = [] then ''.''
      else
        let initial_slashes =
              (if startswith path ''/'' then
                 (if startswith path ''//'' \<and> \<not> startswith path ''///'' then 2 else 1)
               else (0::nat));
            comps = normpath_comps (initial_slashes \<noteq> 0) [] (split_sep CHR ''/'' path);
            joined = join_with ''/'' comps;
            path' = (if initial_slashes \<noteq> 0
                     then replicate initial_slashes CHR ''/'' @ joined else joined)
        in if path' = [] then ''.'' else path')"

definition abspath :: "string \<Rightarrow> string \<Rightarrow> string" where
  "abspath cwd path = normpath (if \<not> isabs path then path_join cwd [path] else path)"

section \<open>Process state and the launcher's surroundings\<close>

text \<open>
  What terminates a Python computation abnormally. \<^verbatim>\<open>sys.exit(n)\<close> raises
  \<open>SystemExit n\<close>; only \<open>Exception\<close> stands for an instance of a subclass of the class
  \<^verbatim>\<open>Exception\<close> (its argument is a description); the other three derive from
  \<^verbatim>\<open>BaseException\<close> directly.
\<close>

datatype py_exception =
    SystemExit int
  | KeyboardInterrupt
  | GeneratorExit
  | Exception string

fun is_Exception :: "py_exception \<Rightarrow> bool" where
  "is_Exception (Exception d) = True"
| "is_Exception e = False"

datatype 'a result = Normal 'a | Raise py_exception

datatype handle = DiskFile string | StringIO string

type_synonym code_object = string

datatype event =
    SiteReset
  | SiteMain
  | AddSiteDir string
  | RunModule string
  | MarshalLoad string
  | Compile string
  | ExecCode code_object
  | ExecFile string
  | Interact string

text \<open>
  The module globals that the launcher assigns, with \<^verbatim>\<open>sys.argv\<close>, \<^verbatim>\<open>sys.path\<close>, the two
  output streams (the list of strings written), the file objects that are open, the
  \<^verbatim>\<open>__file__\<close> binding of the run-time globals, and the calls made to collaborators.
\<close>

record pyrun_state =
  sys_argv :: "string list"
  sys_path :: "string list"
  stdout :: "string list"
  stderr :: "string list"
  pyrun_verbose :: int
  pyrun_debug :: int
  pyrun_as_module :: int
  pyrun_as_string :: int
  pyrun_bytecode :: int
  pyrun_ignore_environment :: int
  pyrun_ignore_pth_files :: int
  pyrun_skip_site_main :: int
  pyrun_interactive :: int
  pyrun_unbuffered :: int
  unbuffered_io :: bool
  open_files :: "handle list"
  dunder_file :: "string option"
  events :: "event list"

text \<open>The constants imported from \<^verbatim>\<open>pyrun_config\<close>, a module written by the build.\<close>

record pyrun_config =
  pyrun_name :: string
  pyrun_version :: string
  pyrun_libversion :: string
  pyrun_executable :: string
  pyrun_dir :: string
  pyrun_binary :: string
  pyrun_prefix :: string
  pyrun_bindir :: string

text \<open>
  Everything else the launcher reads or calls: the environment, the file system, the
  interpreter (\<^verbatim>\<open>imp\<close>, \<^verbatim>\<open>marshal\<close>, \<^verbatim>\<open>compile\<close>, \<^verbatim>\<open>exec\<close>, \<^verbatim>\<open>execfile\<close>, \<^verbatim>\<open>runpy\<close>,
  \<^verbatim>\<open>code.interact\<close>, \<^verbatim>\<open>traceback\<close>) and the \<^verbatim>\<open>site\<close> module. Code that runs in the
  launcher's globals may change any part of the state and may raise. \<^verbatim>\<open>site.main\<close> and
  \<^verbatim>\<open>site.addsitedir\<close> are taken by what they do to \<^verbatim>\<open>sys.path\<close>. \<open>file_bytes\<close> is the
  content that \<^verbatim>\<open>open\<close> and \<^verbatim>\<open>read\<close> deliver; where it is undefined, \<^verbatim>\<open>open\<close> raises.
\<close>

record platform =
  config :: pyrun_config
  sys_version :: string
  environ :: "string \<rightharpoonup> string"
  getcwd :: string
  path_exists :: "string \<Rightarrow> bool"
  access_R_OK :: "string \<Rightarrow> bool"
  file_bytes :: "string \<rightharpoonup> string"
  get_magic :: string
  marshal_load :: "string \<Rightarrow> code_object result"
  compile_exec :: "string \<Rightarrow> code_object result"
  exec_code :: "code_object \<Rightarrow> pyrun_state \<Rightarrow> unit result \<times> pyrun_state"
  execfile :: "string \<Rightarrow> pyrun_state \<Rightarrow> unit result \<times> pyrun_state"
  run_module :: "string \<Rightarrow> pyrun_state \<Rightarrow> unit result \<times> pyrun_state"
  code_interact :: "string \<Rightarrow> pyrun_state \<Rightarrow> unit result \<times> pyrun_state"
  format_exc :: "py_exception \<Rightarrow> string"
  repr_globals :: "pyrun_state \<Rightarrow> string"
  site_loaded :: bool
  site_main :: "string list \<Rightarrow> string list"
  site_addsitedir :: "string \<Rightarrow> string list \<Rightarrow> string list"

text \<open>
  The state in which the entry point starts: every option global is 0, as assigned at
  module level.
\<close>

definition initial_state :: "string list \<Rightarrow> string list \<Rightarrow> pyrun_state" where
  "initial_state argv path =
     \<lparr> sys_argv = argv, sys_path = path, stdout = [], stderr = [],
       pyrun_verbose = 0, pyrun_debug = 0, pyrun_as_module = 0, pyrun_as_string = 0,
       pyrun_bytecode = 0, pyrun_ignore_environment = 0, pyrun_ignore_pth_files = 0,
       pyrun_skip_site_main = 0, pyrun_interactive = 0, pyrun_unbuffered = 0,
       unbuffered_io = False, open_files = [], dunder_file = None, events = [] \<rparr>"

section \<open>Diagnostics: \<^verbatim>\<open>pyrun_help\<close>, \<^verbatim>\<open>pyrun_info\<close>, \<^verbatim>\<open>pyrun_log\<close>, \<^verbatim>\<open>pyrun_log_error\<close>\<close>

definition help_format :: "string \<Rightarrow> string \<Rightarrow> string" where
  "help_format name version =
     ''Usage: '' @ name @ '' [pyrunoptions] <script> [parameters]\<newline>'' @
     ''\<newline>'' @
     ''Version: '' @ version @ ''\<newline>'' @
     ''\<newline>'' @
     ''Available pyrun options:\<newline>'' @
     ''\<newline>'' @
     ''-h:   show this help text\<newline>'' @
     ''-v:   run in verbose mode\<newline>'' @
     ''-i:   enable interactive mode\<newline>'' @
     ''-m:   import and run a module <script> available on PYTHONPATH\<newline>'' @
     ''-c:   compile and run <script> directly as Python code\<newline>'' @
     ''-b:   run the given <script> file as bytecode\<newline>'' @
     ''-E:   ignore environment variables (only PYTHONPATH)\<newline>'' @
     ''-S:   skip running site.main() and disable support for .pth files\<newline>'' @
     ''-O:   ignored (pyrun always runs in optimized mode)\<newline>'' @
     ''-u:   open stdout/stderr in unbuffered mode\<newline>'' @
     ''-V:   print the pyrun version and exit\<newline>'' @
     ''\<newline>'' @
     ''Without options, the given <script> file is loaded as Python source\<newline>'' @
     ''code and run. Parameters are passed to the script via sys.argv as\<newline>'' @
     ''normal.\<newline>'' @
     ''\<newline>''"

definition write_lines :: "string list \<Rightarrow> string list" where
  "write_lines ls = map (\<lambda>line. line @ ''\<newline>'') ls"

definition pyrun_help :: "platform \<Rightarrow> string list \<Rightarrow> pyrun_state \<Rightarrow> pyrun_state" where
  "pyrun_help plat extra_lines s =
     (let help_text = splitlines (help_format (pyrun_name (config plat))
                                              (pyrun_version (config plat)));
          help_text' = (if extra_lines \<noteq> [] then help_text @ extra_lines else help_text)
      in s\<lparr>stderr := stderr s @ write_lines help_text'\<rparr>)"

definition info_format :: "platform \<Rightarrow> pyrun_state \<Rightarrow> string" where
  "info_format plat s =
     ''### PyRun Debug Information\<newline>'' @
     ''\<newline>'' @
     ''# Name and version\<newline>'' @
     ''pyrun_name = '' @ py_repr (pyrun_name (config plat)) @ ''\<newline>'' @
     ''pyrun_version = '' @ py_repr (pyrun_version (config plat)) @ ''\<newline>'' @
     ''pyrun_libversion = '' @ py_repr (pyrun_libversion (config plat)) @ ''\<newline>'' @
     ''\<newline>'' @
     ''# Files and directories\<newline>'' @
     ''pyrun_executable = '' @ py_repr (pyrun_executable (config plat)) @ ''\<newline>'' @
     ''pyrun_dir = '' @ py_repr (pyrun_dir (config plat)) @ ''\<newline>'' @
     ''pyrun_binary = '' @ py_repr (pyrun_binary (config plat)) @ ''\<newline>'' @
     ''pyrun_prefix = '' @ py_repr (pyrun_prefix (config plat)) @ ''\<newline>'' @
     ''pyrun_bindir = '' @ py_repr (pyrun_bindir (config plat)) @ ''\<newline>'' @
     ''\<newline>'' @
     ''# Options\<newline>'' @
     ''pyrun_verbose = '' @ repr_int (pyrun_verbose s) @ ''\<newline>'' @
     ''pyrun_debug = '' @ repr_int (pyrun_debug s) @ ''\<newline>'' @
     ''pyrun_as_module = '' @ repr_int (pyrun_as_module s) @ ''\<newline>'' @
     ''pyrun_as_string = '' @ repr_int (pyrun_as_string s) @ ''\<newline>'' @
     ''pyrun_bytecode = '' @ repr_int (pyrun_bytecode s) @ ''\<newline>'' @
     ''pyrun_ignore_environment = '' @ repr_int (pyrun_ignore_environment s) @ ''\<newline>'' @
     ''pyrun_ignore_pth_files = '' @ repr_int (pyrun_ignore_pth_files s) @ ''\<newline>'' @
     ''pyrun_interactive = '' @ repr_int (pyrun_interactive s) @ ''\<newline>'' @
     ''\<newline>''"

definition pyrun_info :: "platform \<Rightarrow> string list \<Rightarrow> pyrun_state \<Rightarrow> pyrun_state" where
  "pyrun_info plat extra_lines s =
     (let info_text = splitlines (info_format plat s);
          info_text' = (if extra_lines \<noteq> [] then info_text @ extra_lines else info_text)
      in s\<lparr>stderr := stderr s @ write_lines info_text'\<rparr>)"

definition pyrun_log :: "platform \<Rightarrow> string \<Rightarrow> pyrun_state \<Rightarrow> pyrun_state" where
  "pyrun_log plat line s =
     s\<lparr>stderr := stderr s @ [pyrun_name (config plat) @ '': '' @ line @ ''\<newline>'']\<rparr>"

definition pyrun_log_error :: "platform \<Rightarrow> string \<Rightarrow> pyrun_state \<Rightarrow> pyrun_state" where
  "pyrun_log_error plat line s =
     s\<lparr>stderr := stderr s @ [pyrun_name (config plat) @ '' error: '' @ line @ ''\<newline>'']\<rparr>"

text \<open>The debug loops that log a header and then every entry of \<^verbatim>\<open>sys.path\<close>.\<close>

definition log_sys_path :: "platform \<Rightarrow> string \<Rightarrow> pyrun_state \<Rightarrow> pyrun_state" where
  "log_sys_path plat header s =
     foldl (\<lambda>s' path. pyrun_log plat (''    '' @ path) s') (pyrun_log plat header s) (sys_path s)"

section \<open>\<^verbatim>\<open>pyrun_parse_cmdline\<close>\<close>

definition valid_options :: string where
  "valid_options = ''vVmcbiESdOu3h?''"

text \<open>
  The loop over \<^verbatim>\<open>parsed_options\<close>. \<^verbatim>\<open>sys.exit\<close> ends it with \<open>Raise\<close>; the counter \<^verbatim>\<open>i\<close>
  of the source is never read and is left out.
\<close>

fun process_options :: "platform \<Rightarrow> optlist \<Rightarrow> pyrun_state \<Rightarrow> unit result \<times> pyrun_state" where
  "process_options plat [] s = (Normal (), s)"
| "process_options plat ((arg, val) # rest) s =
     (if arg = ''-v'' then process_options plat rest (s\<lparr>pyrun_verbose := 1\<rparr>)
      else if arg = ''-m'' then process_options plat rest (s\<lparr>pyrun_as_module := 1\<rparr>)
      else if arg = ''-c'' then process_options plat rest (s\<lparr>pyrun_as_string := 1\<rparr>)
      else if arg = ''-b'' then process_options plat rest (s\<lparr>pyrun_bytecode := 1\<rparr>)
      else if arg = ''-i'' then process_options plat rest (s\<lparr>pyrun_interactive := 1\<rparr>)
      else if arg = ''-E'' then process_options plat rest (s\<lparr>pyrun_ignore_environment := 1\<rparr>)
      else if arg = ''-S'' then
        process_options plat rest (s\<lparr>pyrun_ignore_pth_files := 1, pyrun_skip_site_main := 1\<rparr>)
      else if arg = ''-d'' then process_options plat rest (s\<lparr>pyrun_debug := 1\<rparr>)
      else if arg = ''-u'' then process_options plat rest (s\<lparr>pyrun_unbuffered := 1\<rparr>)
      else if arg = ''-V'' then
        (Raise (SystemExit 0),
         s\<lparr>stdout := stdout s @ [''pyrun '' @ pyrun_version (config plat) @ ''\<newline>'']\<rparr>)
      else if arg = ''-O'' \<or> arg = ''-3'' then process_options plat rest s
      else if arg = ''-h'' \<or> arg = ''-?'' then (Raise (SystemExit 0), pyrun_help plat [] s)
      else (Raise (SystemExit 1),
            pyrun_help plat [''*** Error: Unknown option '' @ py_repr arg] s))"

definition pyrun_parse_cmdline :: "platform \<Rightarrow> pyrun_state \<Rightarrow> unit result \<times> pyrun_state" where
  "pyrun_parse_cmdline plat s =
     (case getopt (drop 1 (sys_argv s)) valid_options of
        Inl reason \<Rightarrow>
          (Raise (SystemExit 1),
           pyrun_help plat [''*** Problem parsing command line: '' @ reason] s)
      | Inr (parsed_options, remaining_argv) \<Rightarrow>
          (case process_options plat parsed_options s of
             (Raise e, s') \<Rightarrow> (Raise e, s')
           | (Normal u, s') \<Rightarrow> (Normal (), s'\<lparr>sys_argv := remaining_argv\<rparr>)))"

section \<open>\<^verbatim>\<open>pyrun_normpath\<close>\<close>

definition pyrun_normpath :: "platform \<Rightarrow> string \<Rightarrow> string" where
  "pyrun_normpath plat path =
     (let path1 = strip path;
          path2 =
            (if path1 = ''~'' then
               (case environ plat ''HOME'' of None \<Rightarrow> ''~'' | Some home \<Rightarrow> home)
             else if take 2 path1 = ''~/'' then
               (case environ plat ''HOME'' of
                  None \<Rightarrow> path1
                | Some home \<Rightarrow>
                    (if endswith home ''/'' then home @ drop 2 path1
                     else home @ ''/'' @ drop 2 path1))
             else path1)
      in abspath (getcwd plat) path2)"

section \<open>\<^verbatim>\<open>pyrun_prompt\<close>, \<^verbatim>\<open>pyrun_enable_unbuffered_mode\<close>, \<^verbatim>\<open>pyrun_update_runtime\<close>, \<^verbatim>\<open>pyrun_run_site_main\<close>\<close>

definition pyrun_banner :: "platform \<Rightarrow> string" where
  \<open>pyrun_banner plat =
     pyrun_name (config plat) @ '' '' @ sys_version plat @ ''\<newline>'' @
     ''Thank you for using eGenix PyRun. Type "help" or "license" for details.\<newline>''\<close>

definition pyrun_prompt :: "platform \<Rightarrow> string \<Rightarrow> string \<Rightarrow> pyrun_state \<Rightarrow> unit result \<times> pyrun_state" where
  "pyrun_prompt plat pyrun_script banner s =
     code_interact plat banner
       (s\<lparr>dunder_file := Some pyrun_script, events := events s @ [Interact banner]\<rparr>)"

definition pyrun_enable_unbuffered_mode :: "pyrun_state \<Rightarrow> pyrun_state" where
  "pyrun_enable_unbuffered_mode s = s\<lparr>unbuffered_io := True\<rparr>"

definition pyrun_update_runtime :: "platform \<Rightarrow> pyrun_state \<Rightarrow> pyrun_state" where
  "pyrun_update_runtime plat s =
     (if site_loaded plat then s\<lparr>events := events s @ [SiteReset]\<rparr> else s)"

definition pyrun_run_site_main :: "platform \<Rightarrow> pyrun_state \<Rightarrow> pyrun_state" where
  "pyrun_run_site_main plat s =
     (let s1 = (if pyrun_debug s \<noteq> 0
                then log_sys_path plat ''sys.path before importing site:'' s else s);
          s2 = s1\<lparr>sys_path := site_main plat (sys_path s1), events := events s1 @ [SiteMain]\<rparr>
      in if pyrun_debug s2 \<noteq> 0
         then log_sys_path plat ''sys.path after importing site:'' s2 else s2)"

section \<open>\<^verbatim>\<open>pyrun_setup_sys_path\<close>\<close>

text \<open>
  The directories the function computes before it touches \<^verbatim>\<open>sys.path\<close>: the script
  directory, and the library directory with its fallback below \<^verbatim>\<open>pyrun_dir\<close>.
\<close>

definition script_dir :: "platform \<Rightarrow> string option \<Rightarrow> string" where
  "script_dir plat pyrun_script =
     pyrun_normpath plat
       (case pyrun_script of
          Some script \<Rightarrow> fst (path_split (pyrun_normpath plat script))
        | None \<Rightarrow> getcwd plat)"

definition python_lib :: "platform \<Rightarrow> string" where
  "python_lib plat =
     (let lib = path_join (pyrun_prefix (config plat))
                  [''lib'', ''python'' @ pyrun_libversion (config plat)];
          lib' = (if \<not> path_exists plat lib
                  then path_join (pyrun_dir (config plat))
                         [''lib'', ''python'' @ pyrun_libversion (config plat)]
                  else lib)
      in pyrun_normpath plat lib')"

definition python_lib_dynload :: "platform \<Rightarrow> string" where
  "python_lib_dynload plat = path_join (python_lib plat) [''lib-dynload'']"

definition python_site_package :: "platform \<Rightarrow> string" where
  "python_site_package plat = path_join (python_lib plat) [''site-packages'']"

definition pyrun_setup_sys_path :: "platform \<Rightarrow> string option \<Rightarrow> pyrun_state \<Rightarrow> pyrun_state" where
  "pyrun_setup_sys_path plat pyrun_script s =
     (let s1 = (if pyrun_debug s \<noteq> 0
                then log_sys_path plat ''sys.path before adjusting it (compile time version):'' s
                else s);
          s2 = s1\<lparr>sys_path := [script_dir plat pyrun_script]\<rparr>;
          s3 = (if pyrun_ignore_environment s2 = 0 then
                  (case environ plat ''PYTHONPATH'' of
                     None \<Rightarrow> s2
                   | Some pythonpath \<Rightarrow>
                       s2\<lparr>sys_path := sys_path s2
                            @ map (pyrun_normpath plat) (split_sep CHR '':'' pythonpath)\<rparr>)
                else s2);
          s4 = s3\<lparr>sys_path := sys_path s3 @ [python_lib plat]\<rparr>;
          s5 = s4\<lparr>sys_path := sys_path s4 @ [python_lib_dynload plat]\<rparr>;
          s6 = (if pyrun_ignore_pth_files s5 \<noteq> 0
                then s5\<lparr>sys_path := sys_path s5 @ [python_site_package plat]\<rparr>
                else s5\<lparr>sys_path := site_addsitedir plat (python_site_package plat) (sys_path s5),
                        events := events s5 @ [AddSiteDir (python_site_package plat)]\<rparr>);
          s7 = (if pyrun_debug s6 \<noteq> 0
                then log_sys_path plat ''sys.path after adjusting it (before cleanup):'' s6
                else s6);
          s8 = s7\<lparr>sys_path := filter (path_exists plat) (sys_path s7)\<rparr>
      in if pyrun_debug s8 \<noteq> 0
         then log_sys_path plat ''sys.path final version:'' s8 else s8)"

section \<open>\<^verbatim>\<open>pyrun_execute_script\<close>\<close>

text \<open>The branch for the modes \<^verbatim>\<open>'codefile'\<close> and \<^verbatim>\<open>'codestring'\<close>, from the magic check on.\<close>

definition run_bytecode ::
  "platform \<Rightarrow> string \<Rightarrow> handle \<Rightarrow> string \<Rightarrow> pyrun_state \<Rightarrow> unit result \<times> pyrun_state" where
  "run_bytecode plat pyrun_script module_file bytes s =
     (if take 4 bytes \<noteq> get_magic plat then
        (Raise (SystemExit 1),
         pyrun_log_error plat (''Incompatible bytecode file '' @ py_repr pyrun_script) s)
      else
        let payload = drop 4 (drop 4 bytes);
            s1 = s\<lparr>events := events s @ [MarshalLoad payload]\<rparr>
        in case marshal_load plat payload of
             Raise e \<Rightarrow> (Raise e, s1)
           | Normal module_code \<Rightarrow>
               exec_code plat module_code
                 (s1\<lparr>open_files := remove1 module_file (open_files s1),
                     dunder_file := Some pyrun_script,
                     events := events s1 @ [ExecCode module_code]\<rparr>))"

definition adjust_mode :: "string \<Rightarrow> string \<Rightarrow> string" where
  "adjust_mode pyrun_script mode =
     (if mode = ''file'' \<and> (endswith pyrun_script ''.pyc'' \<or> endswith pyrun_script ''.pyo'')
      then ''codefile'' else mode)"

definition pyrun_execute_script ::
  "platform \<Rightarrow> string \<Rightarrow> string \<Rightarrow> pyrun_state \<Rightarrow> unit result \<times> pyrun_state" where
  "pyrun_execute_script plat pyrun_script mode0 s0 =
     (let s = (if pyrun_debug s0 \<noteq> 0 then
                 pyrun_log plat (''globals()='' @ repr_globals plat s0)
                   (pyrun_log plat (''sys.path='' @ repr_list (sys_path s0))
                      (pyrun_log plat (''sys.argv='' @ repr_list (sys_argv s0)) s0))
               else s0);
          mode = adjust_mode pyrun_script mode0
      in
        if mode = ''module'' then
          (let s1 = (if pyrun_verbose s \<noteq> 0
                     then pyrun_log plat (''Running '' @ py_repr pyrun_script @ '' as module'') s
                     else s)
           in run_module plat pyrun_script (s1\<lparr>events := events s1 @ [RunModule pyrun_script]\<rparr>))
        else if mode = ''codefile'' \<or> mode = ''codestring'' then
          (if mode = ''codefile'' then
             (let s1 = (if pyrun_verbose s \<noteq> 0
                        then pyrun_log plat
                               (''Running '' @ py_repr pyrun_script @ '' as bytecode file'') s
                        else s)
              in if \<not> access_R_OK plat pyrun_script then
                   (Raise (SystemExit 1),
                    pyrun_log_error plat
                      (''Could not find/read script file '' @ py_repr pyrun_script) s1)
                 else
                   (case file_bytes plat pyrun_script of
                      None \<Rightarrow> (Raise (Exception ''IOError''), s1)
                    | Some bytes \<Rightarrow>
                        run_bytecode plat pyrun_script (DiskFile pyrun_script) bytes
                          (s1\<lparr>open_files := open_files s1 @ [DiskFile pyrun_script]\<rparr>)))
           else
             (let s1 = (if pyrun_verbose s \<noteq> 0
                        then pyrun_log plat ''Running pyrun_script as bytecode string'' s
                        else s)
              in run_bytecode plat pyrun_script (StringIO pyrun_script) pyrun_script
                   (s1\<lparr>open_files := open_files s1 @ [StringIO pyrun_script]\<rparr>)))
        else if mode = ''file'' then
          (let s1 = (if pyrun_verbose s \<noteq> 0
                     then pyrun_log plat (''Running '' @ py_repr pyrun_script @ '' as script'') s
                     else s)
           in if \<not> access_R_OK plat pyrun_script then
                (Raise (SystemExit 1),
                 pyrun_log_error plat
                   (''Could not find/read script file '' @ py_repr pyrun_script) s1)
              else
                execfile plat pyrun_script
                  (s1\<lparr>dunder_file := Some pyrun_script,
                      events := events s1 @ [ExecFile pyrun_script]\<rparr>))
        else if mode = ''string'' then
          (let s1 = (if pyrun_verbose s \<noteq> 0
                     then pyrun_log plat ''Running pyrun_script as string'' s else s);
               script_path = ''<stdin>'';
               source = (if \<not> endswith pyrun_script ''\<newline>''
                         then pyrun_script @ ''\<newline>'' else pyrun_script);
               s2 = s1\<lparr>events := events s1 @ [Compile source]\<rparr>
           in case compile_exec plat source of
                Raise e \<Rightarrow> (Raise e, s2)
              | Normal code \<Rightarrow>
                  exec_code plat code
                    (s2\<lparr>dunder_file := Some script_path,
                        events := events s2 @ [ExecCode code]\<rparr>))
        else (Raise (Exception (''TypeError: unknown execution mode '' @ py_repr mode)), s))"

section \<open>The entry point\<close>

definition print_exc :: "platform \<Rightarrow> py_exception \<Rightarrow> pyrun_state \<Rightarrow> pyrun_state" where
  "print_exc plat e s = s\<lparr>stderr := stderr s @ [format_exc plat e]\<rparr>"

text \<open>Parsing the command line and the steps up to the debug information.\<close>

definition pyrun_startup :: "platform \<Rightarrow> pyrun_state \<Rightarrow> unit result \<times> pyrun_state" where
  "pyrun_startup plat s0 =
     (case pyrun_parse_cmdline plat s0 of
        (Raise e, s) \<Rightarrow> (Raise e, s)
      | (Normal u, s1) \<Rightarrow>
          (let s2 = (if pyrun_unbuffered s1 \<noteq> 0 then pyrun_enable_unbuffered_mode s1 else s1);
               s3 = pyrun_update_runtime plat s2;
               s4 = (if pyrun_debug s3 \<noteq> 0 then pyrun_info plat [] s3 else s3)
           in (Normal (), s4)))"

text \<open>The choice of \<^verbatim>\<open>mode\<close> and \<^verbatim>\<open>script_path\<close> for the script \<^verbatim>\<open>sys.argv[0]\<close>.\<close>

definition select_mode :: "pyrun_state \<Rightarrow> string \<Rightarrow> string \<times> string option" where
  "select_mode s pyrun_script =
     (if pyrun_as_module s \<noteq> 0 then (''module'', None)
      else if pyrun_as_string s \<noteq> 0 then (''string'', None)
      else (''file'', Some pyrun_script))"

text \<open>The \<^verbatim>\<open>try\<close> statement around \<^verbatim>\<open>pyrun_execute_script\<close>.\<close>

definition run_target ::
  "platform \<Rightarrow> string \<Rightarrow> string \<Rightarrow> pyrun_state \<Rightarrow> unit result \<times> pyrun_state" where
  "run_target plat pyrun_script mode s =
     (case pyrun_execute_script plat pyrun_script mode s of
        (Raise e, s') \<Rightarrow>
          (if is_Exception e then
             (if pyrun_interactive s' \<noteq> 0
              then pyrun_prompt plat ''<stdin>'' [] (print_exc plat e s')
              else (Raise e, s'))
           else (Raise e, s'))
      | (Normal u, s') \<Rightarrow>
          (if pyrun_interactive s' \<noteq> 0
           then pyrun_prompt plat ''<stdin>'' (pyrun_banner plat) s'
           else (Normal (), s')))"

definition site_step :: "platform \<Rightarrow> pyrun_state \<Rightarrow> pyrun_state" where
  "site_step plat s = (if pyrun_skip_site_main s = 0 then pyrun_run_site_main plat s else s)"

text \<open>
  The whole run: the exception that ends the process (the script ends with
  \<^verbatim>\<open>sys.exit(0)\<close>) and the final state.
\<close>

definition finish :: "unit result \<times> pyrun_state \<Rightarrow> py_exception \<times> pyrun_state" where
  "finish r = (case r of (Raise e, s) \<Rightarrow> (e, s) | (Normal u, s) \<Rightarrow> (SystemExit 0, s))"

definition pyrun_main :: "platform \<Rightarrow> pyrun_state \<Rightarrow> py_exception \<times> pyrun_state" where
  "pyrun_main plat s0 =
     (case pyrun_startup plat s0 of
        (Raise e, s) \<Rightarrow> (e, s)
      | (Normal u, s) \<Rightarrow>
          (case sys_argv s of
             pyrun_script # params \<Rightarrow>
               (let (mode, script_path) = select_mode s pyrun_script;
                    s5 = pyrun_setup_sys_path plat script_path s;
                    s6 = site_step plat s5
                in finish (run_target plat pyrun_script mode s6))
           | [] \<Rightarrow>
               (let s5 = pyrun_setup_sys_path plat None s;
                    s6 = site_step plat s5
                in finish (pyrun_prompt plat ''<stdin>'' (pyrun_banner plat) s6))))"

section \<open>Notions used to state the properties\<close>

text \<open>
  A token that \<open>getopt\<close> treats as an option: it starts with \<^verbatim>\<open>-\<close> and is not \<^verbatim>\<open>-\<close> itself.
\<close>

definition is_option_token :: "string \<Rightarrow> bool" where
  "is_option_token a = (startswith a ''-'' \<and> a \<noteq> ''-'')"

text \<open>
  The arguments that follow the leading run of option tokens; a \<^verbatim>\<open>--\<close> ends the run and
  is dropped.
\<close>

fun residual_args :: "string list \<Rightarrow> string list" where
  "residual_args [] = []"
| "residual_args (a # args) =
     (if a = ''--'' then args
      else if is_option_token a then residual_args args
      else a # args)"

text \<open>All tokens of an argument vector that are not option tokens, wherever they stand.\<close>

definition nonflag_tokens :: "string list \<Rightarrow> string list" where
  "nonflag_tokens args = filter (\<lambda>a. \<not> is_option_token a) args"

text \<open>
  The first option of the leading run that is not in the flag alphabet, as \<open>getopt\<close>
  names it: a long option up to its \<^verbatim>\<open>=\<close>, or \<^verbatim>\<open>-\<close> and the offending character.
\<close>

fun unrecognized :: "string list \<Rightarrow> string option" where
  "unrecognized [] = None"
| "unrecognized (a # args) =
     (if \<not> is_option_token a \<or> a = ''--'' then None
      else if startswith a ''--''
        then Some (''--'' @ takeWhile (\<lambda>c. c \<noteq> CHR ''='') (drop 2 a))
      else (case filter (\<lambda>c. c \<notin> set valid_options) (drop 1 a) of
              [] \<Rightarrow> unrecognized args
            | c # cs \<Rightarrow> Some [CHR ''-'', c]))"

text \<open>The mode-selecting flag that was supplied last, if any.\<close>

definition last_mode_flag :: "optlist \<Rightarrow> string option" where
  "last_mode_flag opts =
     (case filter (\<lambda>arg. arg = ''-m'' \<or> arg = ''-c'' \<or> arg = ''-b'') (map fst opts) of
        [] \<Rightarrow> None
      | flag # flags \<Rightarrow> Some (last (flag # flags)))"

text \<open>
  The normalised entries of \<^verbatim>\<open>PYTHONPATH\<close> in listed order, none when the variable is
  unset or the environment is ignored.
\<close>

definition environment_entries :: "platform \<Rightarrow> pyrun_state \<Rightarrow> string list" where
  "environment_entries plat s =
     (if pyrun_ignore_environment s = 0 then
        (case environ plat ''PYTHONPATH'' of
           None \<Rightarrow> []
         | Some pythonpath \<Rightarrow> map (pyrun_normpath plat) (split_sep CHR '':'' pythonpath))
      else [])"

section \<open>A concrete installation\<close>

text \<open>
  An installation below \<^verbatim>\<open>/opt/pyrun\<close>, started in \<^verbatim>\<open>/work\<close>, used to run the launcher on
  concrete command lines. The directory \<^verbatim>\<open>/work/b\<close> does not exist; \<^verbatim>\<open>bad.pyc\<close> starts
  with four bytes that are not the magic number, \<^verbatim>\<open>trunc.pyc\<close> ends after its timestamp,
  and there is no file \<^verbatim>\<open>missing.py\<close>. The scripts run without effect.
\<close>

definition example_config :: pyrun_config where
  "example_config =
     \<lparr> pyrun_name = ''pyrun'', pyrun_version = ''2.6.0'', pyrun_libversion = ''2.7'',
       pyrun_executable = ''/opt/pyrun/bin/pyrun'', pyrun_dir = ''/opt/pyrun/bin'',
       pyrun_binary = ''pyrun'', pyrun_prefix = ''/opt/pyrun'',
       pyrun_bindir = ''/opt/pyrun/bin'' \<rparr>"

definition example_platform :: platform where
  "example_platform =
     \<lparr> config = example_config,
       sys_version = ''2.7.18'',
       environ = [''HOME'' \<mapsto> ''/home/u'', ''PYTHONPATH'' \<mapsto> ''a:b''],
       getcwd = ''/work'',
       path_exists = (\<lambda>p. p \<in> set [''/work'', ''/work/a'', ''/opt/pyrun/lib/python2.7'',
                                     ''/opt/pyrun/lib/python2.7/lib-dynload'',
                                     ''/opt/pyrun/lib/python2.7/site-packages'']),
       access_R_OK = (\<lambda>p. p \<in> set [''foo.py'', ''bad.pyc'', ''good.pyc'', ''trunc.pyc'']),
       file_bytes = [''foo.py'' \<mapsto> ''print 1'',
                     ''bad.pyc'' \<mapsto> ''XXXXtimepayload'',
                     ''good.pyc'' \<mapsto> [CHR 0x03, CHR 0xF3, CHR 0x0D, CHR 0x0A] @ ''timepayload'',
                     ''trunc.pyc'' \<mapsto> [CHR 0x03, CHR 0xF3, CHR 0x0D, CHR 0x0A] @ ''time''],
       get_magic = [CHR 0x03, CHR 0xF3, CHR 0x0D, CHR 0x0A],
       marshal_load = (\<lambda>payload. if payload = ''payload'' then Normal ''code''
                                  else Raise (Exception ''EOFError'')),
       compile_exec = (\<lambda>source. Normal source),
       exec_code = (\<lambda>code s. (Normal (), s)),
       execfile = (\<lambda>file s. (Normal (), s)),
       run_module = (\<lambda>name s. (Normal (), s)),
       code_interact = (\<lambda>banner s. (Normal (), s)),
       format_exc = (\<lambda>e. ''Traceback (most recent call last):\<newline>''),
       repr_globals = (\<lambda>s. ''{}''),
       site_loaded = False,
       site_main = (\<lambda>path. path),
       site_addsitedir = (\<lambda>sitedir path. path @ [sitedir]) \<rparr>"



text \<open>The same installation with a script that is interrupted from the keyboard.\<close>

definition interrupted_platform :: platform where
  "interrupted_platform = example_platform\<lparr>execfile := (\<lambda>file s. (Raise KeyboardInterrupt, s))\<rparr>"

text \<open>The same installation with compiled code that raises when it is executed.\<close>

definition crashing_platform :: platform where
  "crashing_platform =
     example_platform\<lparr>exec_code := (\<lambda>code s. (Raise (Exception ''RuntimeError''), s))\<rparr>"

text \<open>The search path of a run in \<^verbatim>\<open>/work\<close> with \<^verbatim>\<open>PYTHONPATH=a:b\<close>.\<close>

definition example_search_path :: "string list" where
  "example_search_path =
     [''/work'', ''/work/a'', ''/opt/pyrun/lib/python2.7'',
      ''/opt/pyrun/lib/python2.7/lib-dynload'', ''/opt/pyrun/lib/python2.7/site-packages'']"

section \<open>Facts about option parsing\<close>

lemma short_has_arg_plain:
  "CHR '':'' \<notin> set shortopts \<Longrightarrow>
   short_has_arg c shortopts =
     (if c \<in> set shortopts then Inr False else Inl (''option -'' @ [c] @ '' not recognized''))"
proof (induction shortopts)
  case Nil
  then show ?case by simp
next
  case (Cons d ds)
  have "\<not> startswith ds '':''"
    using Cons.prems by (cases ds) (auto simp: startswith_def)
  with Cons show ?case by auto
qed

lemma short_has_arg_valid:
  "short_has_arg c valid_options =
     (if c \<in> set valid_options then Inr False else Inl (''option -'' @ [c] @ '' not recognized''))"
  by (rule short_has_arg_plain) (simp add: valid_options_def)

lemma do_shorts_valid:
  "do_shorts opts cs valid_options args =
     (case filter (\<lambda>c. c \<notin> set valid_options) cs of
        [] \<Rightarrow> Inr (opts @ map (\<lambda>c. ([CHR ''-'', c], [])) cs, args)
      | c # bad \<Rightarrow> Inl (''option -'' @ [c] @ '' not recognized''))"
  by (induction cs arbitrary: opts) (simp_all add: short_has_arg_valid split: list.splits)

lemma getopt_loop_residual:
  "getopt_loop opts args valid_options = Inr (opts', rest) \<Longrightarrow> rest = residual_args args"
proof (induction args arbitrary: opts)
  case Nil
  then show ?case by simp
next
  case (Cons a args)
  then show ?case
    by (auto simp: is_option_token_def startswith_def do_longs_def do_shorts_valid
             split: if_splits sum.splits list.splits)
qed

lemma getopt_loop_unrecognized:
  "unrecognized args = Some opt \<Longrightarrow>
   getopt_loop opts args valid_options = Inl (''option '' @ opt @ '' not recognized'')"
proof (induction args arbitrary: opts)
  case Nil
  then show ?case by simp
next
  case (Cons a args)
  then show ?case
    by (auto simp: is_option_token_def startswith_def do_longs_def do_shorts_valid
             split: if_splits sum.splits list.splits)
qed

lemma process_options_modes:
  "process_options plat opts s = (Normal u, s') \<Longrightarrow>
   pyrun_as_module s' = (if ''-m'' \<in> fst ` set opts then 1 else pyrun_as_module s)
   \<and> pyrun_as_string s' = (if ''-c'' \<in> fst ` set opts then 1 else pyrun_as_string s)"
proof (induction opts arbitrary: s)
  case Nil
  then show ?case by simp
next
  case (Cons p opts)
  obtain arg val where p: "p = (arg, val)" by (cases p)
  from Cons.prems obtain s1 where
    step: "process_options plat opts s1 = (Normal u, s')"
    and m: "pyrun_as_module s1 = (if arg = ''-m'' then 1 else pyrun_as_module s)"
    and c: "pyrun_as_string s1 = (if arg = ''-c'' then 1 else pyrun_as_string s)"
    unfolding p by (simp split: if_splits)
  from Cons.IH [OF step] m c show ?case
    unfolding p by auto
qed

lemma startup_state:
  "pyrun_startup plat s0 = (Normal u, s) \<Longrightarrow>
   \<exists>s1. pyrun_parse_cmdline plat s0 = (Normal (), s1)
     \<and> pyrun_as_module s = pyrun_as_module s1 \<and> pyrun_as_string s = pyrun_as_string s1
     \<and> sys_argv s = sys_argv s1"
  by (auto simp: pyrun_startup_def pyrun_enable_unbuffered_mode_def pyrun_update_runtime_def
        pyrun_info_def Let_def split: prod.splits result.splits if_splits)

lemma startup_quiet:
  assumes "pyrun_parse_cmdline plat s0 = (Normal (), s1)"
    and "pyrun_unbuffered s1 = 0" and "pyrun_debug s1 = 0" and "\<not> site_loaded plat"
  shows "pyrun_startup plat s0 = (Normal (), s1)"
  using assms by (simp add: pyrun_startup_def pyrun_update_runtime_def)

section \<open>Facts about logging, the search path and the dispatcher\<close>



lemma setup_sys_path_quiet:
  "pyrun_debug s = 0 \<Longrightarrow>
   pyrun_setup_sys_path plat pyrun_script s =
     (if pyrun_ignore_pth_files s \<noteq> 0
      then s\<lparr>sys_path := filter (path_exists plat)
                ([script_dir plat pyrun_script] @ environment_entries plat s
                 @ [python_lib plat, python_lib_dynload plat] @ [python_site_package plat])\<rparr>
      else s\<lparr>sys_path := filter (path_exists plat)
                (site_addsitedir plat (python_site_package plat)
                   ([script_dir plat pyrun_script] @ environment_entries plat s
                    @ [python_lib plat, python_lib_dynload plat])),
             events := events s @ [AddSiteDir (python_site_package plat)]\<rparr>)"
  by (cases "pyrun_ignore_pth_files s = 0";
      cases "pyrun_ignore_environment s = 0"; cases "environ plat ''PYTHONPATH''";
      simp add: pyrun_setup_sys_path_def environment_entries_def Let_def del: filter.simps)

lemma site_step_quiet:
  "pyrun_debug s = 0 \<Longrightarrow> pyrun_skip_site_main s = 0 \<Longrightarrow>
   site_step plat s = s\<lparr>sys_path := site_main plat (sys_path s), events := events s @ [SiteMain]\<rparr>"
  by (simp add: site_step_def pyrun_run_site_main_def Let_def)

lemma execute_file_quiet:
  assumes "pyrun_debug s = 0" and "pyrun_verbose s = 0"
    and "adjust_mode pyrun_script mode = ''file''"
    and "access_R_OK plat pyrun_script"
  shows "pyrun_execute_script plat pyrun_script mode s =
           execfile plat pyrun_script
             (s\<lparr>dunder_file := Some pyrun_script, events := events s @ [ExecFile pyrun_script]\<rparr>)"
  using assms by (simp add: pyrun_execute_script_def Let_def)

lemma execute_unreadable_quiet:
  assumes "pyrun_debug s = 0" and "pyrun_verbose s = 0"
    and "adjust_mode pyrun_script mode = ''file''"
    and "\<not> access_R_OK plat pyrun_script"
  shows "pyrun_execute_script plat pyrun_script mode s =
           (Raise (SystemExit 1),
            pyrun_log_error plat (''Could not find/read script file '' @ py_repr pyrun_script) s)"
  using assms by (simp add: pyrun_execute_script_def Let_def)

lemma execute_codefile_quiet:
  assumes "pyrun_debug s = 0" and "pyrun_verbose s = 0"
    and "adjust_mode pyrun_script mode = ''codefile''"
    and "access_R_OK plat pyrun_script"
    and "file_bytes plat pyrun_script = Some bytes"
  shows "pyrun_execute_script plat pyrun_script mode s =
           run_bytecode plat pyrun_script (DiskFile pyrun_script) bytes
             (s\<lparr>open_files := open_files s @ [DiskFile pyrun_script]\<rparr>)"
  using assms by (simp add: pyrun_execute_script_def Let_def)

lemma main_with_script:
  assumes "pyrun_startup plat s0 = (Normal u, s)" and "sys_argv s = pyrun_script # params"
  shows "pyrun_main plat s0 =
           finish (run_target plat pyrun_script (fst (select_mode s pyrun_script))
                     (site_step plat
                        (pyrun_setup_sys_path plat (snd (select_mode s pyrun_script)) s)))"
  using assms by (simp add: pyrun_main_def Let_def split: prod.splits)

lemma main_with_mode:
  assumes "pyrun_startup plat s0 = (Normal u, s)" and "sys_argv s = pyrun_script # params"
    and "select_mode s pyrun_script = (mode, script_path)"
  shows "pyrun_main plat s0 =
           finish (run_target plat pyrun_script mode
                     (site_step plat (pyrun_setup_sys_path plat script_path s)))"
  using assms by (simp add: pyrun_main_def Let_def)

section \<open>Facts about the concrete installation\<close>

lemma normpath_home_u: "normpath ''/home/u'' = ''/home/u''"
  by (simp add: normpath_def startswith_def Let_def)

lemma normpath_home_u_x: "normpath ''/home/u/x'' = ''/home/u/x''"
  by (simp add: normpath_def startswith_def Let_def)

lemma normpath_work_rel:
  assumes "getcwd plat = ''/work''"
  shows "pyrun_normpath plat ''a'' = ''/work/a''"
    and "pyrun_normpath plat ''b'' = ''/work/b''"
    and "pyrun_normpath plat ''/work'' = ''/work''"
    and "pyrun_normpath plat ''foo.py'' = ''/work/foo.py''"
    and "pyrun_normpath plat ''/opt/pyrun/lib/python2.7'' = ''/opt/pyrun/lib/python2.7''"
  using assms
  by (simp_all add: pyrun_normpath_def strip_def isspace_def abspath_def isabs_def
        startswith_def endswith_def path_join_def join_step_def normpath_def Let_def)

lemma example_script_dir:
  assumes "getcwd plat = ''/work''"
  shows "script_dir plat None = ''/work''"
    and "script_dir plat (Some ''foo.py'') = ''/work''"
  using assms by (simp_all add: script_dir_def normpath_work_rel path_split_def)

lemma example_lib_dirs:
  assumes "getcwd plat = ''/work''" and "config plat = example_config"
    and "path_exists plat ''/opt/pyrun/lib/python2.7''"
  shows "python_lib plat = ''/opt/pyrun/lib/python2.7''"
    and "python_lib_dynload plat = ''/opt/pyrun/lib/python2.7/lib-dynload''"
    and "python_site_package plat = ''/opt/pyrun/lib/python2.7/site-packages''"
proof -
  have j: "path_join ''/opt/pyrun'' [''lib'', ''python2.7''] = ''/opt/pyrun/lib/python2.7''"
    by (simp add: path_join_def join_step_def startswith_def endswith_def)
  show lib: "python_lib plat = ''/opt/pyrun/lib/python2.7''"
    using assms by (simp add: python_lib_def example_config_def j normpath_work_rel)
  show "python_lib_dynload plat = ''/opt/pyrun/lib/python2.7/lib-dynload''"
    by (simp add: python_lib_dynload_def lib path_join_def join_step_def startswith_def
          endswith_def)
  show "python_site_package plat = ''/opt/pyrun/lib/python2.7/site-packages''"
    by (simp add: python_site_package_def lib path_join_def join_step_def startswith_def
          endswith_def)
qed

lemma example_facts:
  "getcwd example_platform = ''/work''"
  "config example_platform = example_config"
  "path_exists example_platform ''/opt/pyrun/lib/python2.7''"
  "\<not> site_loaded example_platform"
  "environ example_platform ''PYTHONPATH'' = Some ''a:b''"
  "access_R_OK example_platform ''foo.py''"
  "site_main example_platform = (\<lambda>path. path)"
  "site_addsitedir example_platform = (\<lambda>sitedir path. path @ [sitedir])"
  "code_interact example_platform = (\<lambda>banner s. (Normal (), s))"
  "format_exc example_platform = (\<lambda>e. ''Traceback (most recent call last):\<newline>'')"
  by (simp_all add: example_platform_def)

lemma example_platform_execfile:
  "example_platform = example_platform\<lparr>execfile := (\<lambda>file s. (Normal (), s))\<rparr>"
  by (simp add: example_platform_def)

lemma example_filter:
  "filter (path_exists example_platform)
     [''/work'', ''/work/a'', ''/work/b'', ''/opt/pyrun/lib/python2.7'',
      ''/opt/pyrun/lib/python2.7/lib-dynload'', ''/opt/pyrun/lib/python2.7/site-packages'']
   = example_search_path"
  by (simp add: example_platform_def example_search_path_def)

lemma example_environment_entries:
  "pyrun_ignore_environment s = 0 \<Longrightarrow>
   environment_entries (example_platform\<lparr>execfile := f\<rparr>) s = [''/work/a'', ''/work/b'']"
  by (simp add: environment_entries_def example_facts normpath_work_rel)

lemma example_prepare:
  assumes "pyrun_debug s = 0" and "pyrun_ignore_environment s = 0"
    and "pyrun_ignore_pth_files s = 0" and "pyrun_skip_site_main s = 0"
    and "script = None \<or> script = Some ''foo.py''"
  shows "site_step (example_platform\<lparr>execfile := f\<rparr>)
           (pyrun_setup_sys_path (example_platform\<lparr>execfile := f\<rparr>) script s) =
         s\<lparr>sys_path := example_search_path,
            events := events s @ [AddSiteDir ''/opt/pyrun/lib/python2.7/site-packages'', SiteMain]\<rparr>"
proof -
  let ?P = "example_platform\<lparr>execfile := f\<rparr>"
  have dir: "script_dir ?P script = ''/work''"
    using assms(5) example_script_dir [of ?P] by (auto simp: example_facts)
  have libs: "python_lib ?P = ''/opt/pyrun/lib/python2.7''"
    "python_lib_dynload ?P = ''/opt/pyrun/lib/python2.7/lib-dynload''"
    "python_site_package ?P = ''/opt/pyrun/lib/python2.7/site-packages''"
    by (rule example_lib_dirs; simp add: example_facts)+
  have path_set: "pyrun_setup_sys_path ?P script s =
      s\<lparr>sys_path := example_search_path,
         events := events s @ [AddSiteDir ''/opt/pyrun/lib/python2.7/site-packages'']\<rparr>"
    using assms(1-3)
    by (simp add: setup_sys_path_quiet dir libs example_environment_entries example_facts
          example_filter del: filter.simps)
  show ?thesis
    using assms(1,4) by (simp add: path_set site_step_quiet example_facts)
qed

lemma example_main_file:
  assumes parse: "pyrun_parse_cmdline (example_platform\<lparr>execfile := f\<rparr>) s0 = (Normal (), s1)"
    and quiet: "pyrun_unbuffered s1 = 0" "pyrun_debug s1 = 0" "pyrun_verbose s1 = 0"
    and dflt: "pyrun_ignore_environment s1 = 0" "pyrun_ignore_pth_files s1 = 0"
      "pyrun_skip_site_main s1 = 0" "pyrun_as_module s1 = 0" "pyrun_as_string s1 = 0"
    and argv: "sys_argv s1 = ''foo.py'' # params"
  shows "pyrun_main (example_platform\<lparr>execfile := f\<rparr>) s0 =
           finish (run_target (example_platform\<lparr>execfile := f\<rparr>) ''foo.py'' ''file''
             (s1\<lparr>sys_path := example_search_path,
                 events := events s1
                   @ [AddSiteDir ''/opt/pyrun/lib/python2.7/site-packages'', SiteMain]\<rparr>))"
    and "pyrun_execute_script (example_platform\<lparr>execfile := f\<rparr>) ''foo.py'' ''file''
           (s1\<lparr>sys_path := example_search_path,
               events := events s1
                 @ [AddSiteDir ''/opt/pyrun/lib/python2.7/site-packages'', SiteMain]\<rparr>) =
         f ''foo.py''
           (s1\<lparr>sys_path := example_search_path, dunder_file := Some ''foo.py'',
               events := events s1
                 @ [AddSiteDir ''/opt/pyrun/lib/python2.7/site-packages'', SiteMain,
                    ExecFile ''foo.py'']\<rparr>)"
proof -
  let ?P = "example_platform\<lparr>execfile := f\<rparr>"
  have st: "pyrun_startup ?P s0 = (Normal (), s1)"
    by (rule startup_quiet [OF parse quiet(1) quiet(2)]) (simp add: example_facts)
  have mode: "select_mode s1 ''foo.py'' = (''file'', Some ''foo.py'')"
    using dflt by (simp add: select_mode_def)
  have prep: "site_step ?P (pyrun_setup_sys_path ?P (Some ''foo.py'') s1) =
                s1\<lparr>sys_path := example_search_path,
                   events := events s1
                     @ [AddSiteDir ''/opt/pyrun/lib/python2.7/site-packages'', SiteMain]\<rparr>"
    by (rule example_prepare) (simp_all add: quiet dflt)
  have m: "pyrun_main ?P s0 =
      finish (run_target ?P ''foo.py'' (fst (select_mode s1 ''foo.py''))
                (site_step ?P (pyrun_setup_sys_path ?P (snd (select_mode s1 ''foo.py'')) s1)))"
    by (rule main_with_script [OF st argv])
  show "pyrun_main ?P s0 =
           finish (run_target ?P ''foo.py'' ''file''
             (s1\<lparr>sys_path := example_search_path,
                 events := events s1
                   @ [AddSiteDir ''/opt/pyrun/lib/python2.7/site-packages'', SiteMain]\<rparr>))"
    unfolding m mode fst_conv snd_conv prep ..
  show "pyrun_execute_script ?P ''foo.py'' ''file''
           (s1\<lparr>sys_path := example_search_path,
               events := events s1
                 @ [AddSiteDir ''/opt/pyrun/lib/python2.7/site-packages'', SiteMain]\<rparr>) =
         f ''foo.py''
           (s1\<lparr>sys_path := example_search_path, dunder_file := Some ''foo.py'',
               events := events s1
                 @ [AddSiteDir ''/opt/pyrun/lib/python2.7/site-packages'', SiteMain,
                    ExecFile ''foo.py'']\<rparr>)"
    by (subst execute_file_quiet)
       (simp_all add: quiet adjust_mode_def endswith_def example_facts)
qed

lemma getopt_b_foo:
  "getopt [''-b'', ''foo.py''] valid_options = Inr ([(''-b'', [])], [''foo.py''])"
  by (simp add: getopt_def valid_options_def startswith_def)

lemma getopt_script_v:
  "getopt [''script.py'', ''-v''] valid_options = Inr ([], [''script.py'', ''-v''])"
  by (simp add: getopt_def startswith_def)

lemma getopt_vi_foo_v:
  "getopt [''-vi'', ''foo.py'', ''-v''] valid_options
     = Inr ([(''-v'', []), (''-i'', [])], [''foo.py'', ''-v''])"
  by (simp add: getopt_def valid_options_def startswith_def)

lemma getopt_m_c_x:
  "getopt [''-m'', ''-c'', ''x''] valid_options = Inr ([(''-m'', []), (''-c'', [])], [''x''])"
  by (simp add: getopt_def valid_options_def startswith_def)

lemma getopt_c_m_x:
  "getopt [''-c'', ''-m'', ''x''] valid_options = Inr ([(''-c'', []), (''-m'', [])], [''x''])"
  by (simp add: getopt_def valid_options_def startswith_def)

lemma getopt_b_c_x:
  "getopt [''-b'', ''-c'', ''x''] valid_options = Inr ([(''-b'', []), (''-c'', [])], [''x''])"
  by (simp add: getopt_def valid_options_def startswith_def)

lemma getopt_foo_x:
  "getopt [''foo.py'', ''-x''] valid_options = Inr ([], [''foo.py'', ''-x''])"
  by (simp add: getopt_def startswith_def)

lemma getopt_i_foo:
  "getopt [''-i'', ''foo.py''] valid_options = Inr ([(''-i'', [])], [''foo.py''])"
  by (simp add: getopt_def valid_options_def startswith_def)

lemma example_startup:
  assumes "pyrun_parse_cmdline (example_platform\<lparr>execfile := f\<rparr>) s0 = (Normal (), s1)"
    and "pyrun_unbuffered s1 = 0" and "pyrun_debug s1 = 0"
  shows "pyrun_startup (example_platform\<lparr>execfile := f\<rparr>) s0 = (Normal (), s1)"
  by (rule startup_quiet [OF assms]) (simp add: example_facts)

lemma example_execute_file:
  assumes "pyrun_debug s1 = 0" and "pyrun_verbose s1 = 0"
    and "pyrun_ignore_environment s1 = 0" and "pyrun_ignore_pth_files s1 = 0"
    and "pyrun_skip_site_main s1 = 0"
  shows "pyrun_execute_script (example_platform\<lparr>execfile := f\<rparr>) ''foo.py'' ''file''
           (site_step (example_platform\<lparr>execfile := f\<rparr>)
              (pyrun_setup_sys_path (example_platform\<lparr>execfile := f\<rparr>) (Some ''foo.py'') s1)) =
         f ''foo.py''
           (s1\<lparr>sys_path := example_search_path, dunder_file := Some ''foo.py'',
               events := events s1
                 @ [AddSiteDir ''/opt/pyrun/lib/python2.7/site-packages'', SiteMain,
                    ExecFile ''foo.py'']\<rparr>)"
proof -
  let ?P = "example_platform\<lparr>execfile := f\<rparr>"
  have prep: "site_step ?P (pyrun_setup_sys_path ?P (Some ''foo.py'') s1) =
                s1\<lparr>sys_path := example_search_path,
                   events := events s1
                     @ [AddSiteDir ''/opt/pyrun/lib/python2.7/site-packages'', SiteMain]\<rparr>"
    by (rule example_prepare) (simp_all add: assms)
  show ?thesis
    unfolding prep
    by (subst execute_file_quiet)
       (simp_all add: assms adjust_mode_def endswith_def example_facts)
qed

lemma parse_i_foo:
  "pyrun_parse_cmdline plat (initial_state [''pyrun'', ''-i'', ''foo.py''] [])
     = (Normal (), (initial_state [''foo.py''] [])\<lparr>pyrun_interactive := 1\<rparr>)"
  by (simp add: pyrun_parse_cmdline_def getopt_i_foo initial_state_def)

section \<open>The flag \<^verbatim>\<open>-b\<close>\<close>

text \<open>
  Claim C1 says that \<^verbatim>\<open>-b\<close> makes the dispatcher run the script as a bytecode file whatever
  its extension. The run of \<^verbatim>\<open>pyrun -b foo.py\<close> on the concrete installation shows what the
  code does instead: the parser records the flag in \<open>pyrun_bytecode\<close>, the driver never
  reads it, chooses the mode \<^verbatim>\<open>'file'\<close>, and \<^verbatim>\<open>foo.py\<close> is executed by \<^verbatim>\<open>execfile\<close> as source
  text. No file is opened for bytecode reading and nothing is unmarshalled.
\<close>

theorem bytecode_flag_runs_source:
  "pyrun_main example_platform (initial_state [''pyrun'', ''-b'', ''foo.py''] []) =
     (SystemExit 0,
      (initial_state [''foo.py''] example_search_path)
        \<lparr>pyrun_bytecode := 1, dunder_file := Some ''foo.py'',
         events := [AddSiteDir ''/opt/pyrun/lib/python2.7/site-packages'', SiteMain,
                    ExecFile ''foo.py'']\<rparr>)"
proof -
  let ?P = "example_platform\<lparr>execfile := (\<lambda>file s. (Normal (), s))\<rparr>"
  let ?s1 = "(initial_state [''foo.py''] [])\<lparr>pyrun_bytecode := 1\<rparr>"
  have parse: "pyrun_parse_cmdline ?P (initial_state [''pyrun'', ''-b'', ''foo.py''] [])
                 = (Normal (), ?s1)"
    by (simp add: pyrun_parse_cmdline_def getopt_b_foo initial_state_def)
  have fl: "pyrun_unbuffered ?s1 = 0" "pyrun_debug ?s1 = 0" "pyrun_verbose ?s1 = 0"
    "pyrun_ignore_environment ?s1 = 0" "pyrun_ignore_pth_files ?s1 = 0"
    "pyrun_skip_site_main ?s1 = 0" "pyrun_as_module ?s1 = 0" "pyrun_as_string ?s1 = 0"
    "sys_argv ?s1 = ''foo.py'' # []"
    by (simp_all add: initial_state_def)
  note run = example_main_file [OF parse fl]
  have "pyrun_main ?P (initial_state [''pyrun'', ''-b'', ''foo.py''] []) =
     (SystemExit 0,
      (initial_state [''foo.py''] example_search_path)
        \<lparr>pyrun_bytecode := 1, dunder_file := Some ''foo.py'',
         events := [AddSiteDir ''/opt/pyrun/lib/python2.7/site-packages'', SiteMain,
                    ExecFile ''foo.py'']\<rparr>)"
    unfolding run(1) run_target_def run(2)
    by (simp add: finish_def initial_state_def)
  then show ?thesis
    using example_platform_execfile by simp
qed

section \<open>Assembly of the search path\<close>



section \<open>The argument list after parsing\<close>

text \<open>
  Claim C3 says that after parsing \<^verbatim>\<open>sys.argv\<close> holds exactly the non-flag tokens and that
  every recognised flag token is gone. For \<^verbatim>\<open>pyrun script.py -v\<close> parsing succeeds and
  \<^verbatim>\<open>sys.argv\<close> is \<^verbatim>\<open>['script.py', '-v']\<close>: the token \<^verbatim>\<open>-v\<close>, an option token whose letter is
  in the flag alphabet, is still there, and the list differs from the non-flag tokens.
\<close>

theorem parse_cmdline_keeps_later_flags:
  "pyrun_parse_cmdline example_platform (initial_state [''pyrun'', ''script.py'', ''-v''] [])
     = (Normal (), initial_state [''script.py'', ''-v''] [])
   \<and> is_option_token ''-v''
   \<and> short_has_arg CHR ''v'' valid_options = Inr False
   \<and> nonflag_tokens [''script.py'', ''-v''] = [''script.py'']"
proof -
  have "pyrun_parse_cmdline example_platform (initial_state [''pyrun'', ''script.py'', ''-v''] [])
     = (Normal (), initial_state [''script.py'', ''-v''] [])"
    by (simp add: pyrun_parse_cmdline_def getopt_script_v initial_state_def)
  then show ?thesis
    by (simp add: nonflag_tokens_def is_option_token_def startswith_def valid_options_def)
qed

text \<open>
  Claim C3, amended. When parsing succeeds, \<^verbatim>\<open>sys.argv\<close> is the part of the argument vector
  (without the program name) that follows the leading run of option tokens, a \<^verbatim>\<open>--\<close> that
  ends the run being dropped: the first positional argument and everything after it are
  kept unchanged and in order, also tokens that look like flags.
\<close>

theorem parse_cmdline_residual_args:
  "pyrun_parse_cmdline plat s = (Normal (), s') \<Longrightarrow>
   sys_argv s' = residual_args (drop 1 (sys_argv s))"
  unfolding pyrun_parse_cmdline_def getopt_def
  by (auto split: sum.splits prod.splits result.splits dest: getopt_loop_residual)

text \<open>The command line \<^verbatim>\<open>pyrun -vi foo.py -v\<close>: two flags are consumed, the script's own
  \<^verbatim>\<open>-v\<close> is passed on.\<close>

theorem parse_cmdline_residual_args_witness:
  "pyrun_parse_cmdline example_platform (initial_state [''pyrun'', ''-vi'', ''foo.py'', ''-v''] [])
     = (Normal (), (initial_state [''foo.py'', ''-v''] [])
          \<lparr>pyrun_verbose := 1, pyrun_interactive := 1\<rparr>)
   \<and> residual_args [''-vi'', ''foo.py'', ''-v''] = [''foo.py'', ''-v'']"
proof -
  have h: "pyrun_parse_cmdline example_platform
             (initial_state [''pyrun'', ''-vi'', ''foo.py'', ''-v''] [])
           = (Normal (), (initial_state [''foo.py'', ''-v''] [])
                \<lparr>pyrun_verbose := 1, pyrun_interactive := 1\<rparr>)"
    by (simp add: pyrun_parse_cmdline_def getopt_vi_foo_v initial_state_def)
  from parse_cmdline_residual_args [OF h] h show ?thesis by (simp add: initial_state_def)
qed

section \<open>Several mode-selecting flags\<close>

text \<open>
  Claim C4 says that among \<^verbatim>\<open>-m\<close>, \<^verbatim>\<open>-c\<close> and \<^verbatim>\<open>-b\<close> the flag supplied last determines the
  mode. For \<^verbatim>\<open>pyrun -m -c x\<close> the flag supplied last is \<^verbatim>\<open>-c\<close>, and the driver selects the
  mode \<^verbatim>\<open>'module'\<close>.
\<close>

theorem last_mode_flag_does_not_win:
  "getopt (drop 1 [''pyrun'', ''-m'', ''-c'', ''x'']) valid_options
     = Inr ([(''-m'', []), (''-c'', [])], [''x''])
   \<and> last_mode_flag [(''-m'', []), (''-c'', [])] = Some ''-c''
   \<and> pyrun_startup example_platform (initial_state [''pyrun'', ''-m'', ''-c'', ''x''] [])
       = (Normal (), (initial_state [''x''] [])\<lparr>pyrun_as_module := 1, pyrun_as_string := 1\<rparr>)
   \<and> select_mode ((initial_state [''x''] [])\<lparr>pyrun_as_module := 1, pyrun_as_string := 1\<rparr>) ''x''
       = (''module'', None)"
proof -
  have parse: "pyrun_parse_cmdline example_platform
                 (initial_state [''pyrun'', ''-m'', ''-c'', ''x''] [])
               = (Normal (), (initial_state [''x''] [])
                    \<lparr>pyrun_as_module := 1, pyrun_as_string := 1\<rparr>)"
    by (simp add: pyrun_parse_cmdline_def getopt_m_c_x initial_state_def)
  have st: "pyrun_startup example_platform (initial_state [''pyrun'', ''-m'', ''-c'', ''x''] [])
       = (Normal (), (initial_state [''x''] [])\<lparr>pyrun_as_module := 1, pyrun_as_string := 1\<rparr>)"
    by (rule startup_quiet [OF parse]) (simp_all add: initial_state_def example_facts)
  show ?thesis
    using getopt_m_c_x st
    by (simp add: last_mode_flag_def select_mode_def initial_state_def)
qed

text \<open>
  Claim C4, amended. The order of the mode-selecting flags does not matter: when \<^verbatim>\<open>-m\<close> is
  among the parsed flags the dispatch mode is \<^verbatim>\<open>'module'\<close>, whatever else is supplied and
  wherever; when \<^verbatim>\<open>-c\<close> is among them and \<^verbatim>\<open>-m\<close> is not, the mode is \<^verbatim>\<open>'string'\<close>.
\<close>

theorem mode_precedence:
  assumes "getopt (drop 1 argv) valid_options = Inr (opts, rest)"
    and "pyrun_startup plat (initial_state argv path) = (Normal (), s)"
  shows "(''-m'' \<in> fst ` set opts \<longrightarrow>
            adjust_mode script (fst (select_mode s script)) = ''module'')
       \<and> (''-m'' \<notin> fst ` set opts \<and> ''-c'' \<in> fst ` set opts \<longrightarrow>
            adjust_mode script (fst (select_mode s script)) = ''string'')"
proof -
  from startup_state [OF assms(2)] obtain s1 where
    parse: "pyrun_parse_cmdline plat (initial_state argv path) = (Normal (), s1)"
    and same: "pyrun_as_module s = pyrun_as_module s1" "pyrun_as_string s = pyrun_as_string s1"
    by blast
  from parse assms(1) obtain s2 where
    po: "process_options plat opts (initial_state argv path) = (Normal (), s2)"
    and s1: "s1 = s2\<lparr>sys_argv := rest\<rparr>"
    by (auto simp: pyrun_parse_cmdline_def initial_state_def split: prod.splits result.splits)
  from process_options_modes [OF po]
  have "pyrun_as_module s = (if ''-m'' \<in> fst ` set opts then 1 else 0)"
    and "pyrun_as_string s = (if ''-c'' \<in> fst ` set opts then 1 else 0)"
    using same s1 by (simp_all add: initial_state_def)
  then show ?thesis
    by (simp add: select_mode_def adjust_mode_def)
qed

text \<open>The command lines \<^verbatim>\<open>pyrun -c -m x\<close> (module mode although \<^verbatim>\<open>-c\<close> comes first) and
  \<^verbatim>\<open>pyrun -b -c x\<close> (string mode).\<close>

theorem mode_precedence_witness:
  "getopt (drop 1 [''pyrun'', ''-c'', ''-m'', ''x'']) valid_options
     = Inr ([(''-c'', []), (''-m'', [])], [''x''])
   \<and> pyrun_startup example_platform (initial_state [''pyrun'', ''-c'', ''-m'', ''x''] [])
       = (Normal (), (initial_state [''x''] [])\<lparr>pyrun_as_string := 1, pyrun_as_module := 1\<rparr>)
   \<and> adjust_mode ''x''
         (fst (select_mode ((initial_state [''x''] [])
                 \<lparr>pyrun_as_string := 1, pyrun_as_module := 1\<rparr>) ''x'')) = ''module''
   \<and> getopt (drop 1 [''pyrun'', ''-b'', ''-c'', ''x'']) valid_options
     = Inr ([(''-b'', []), (''-c'', [])], [''x''])
   \<and> pyrun_startup example_platform (initial_state [''pyrun'', ''-b'', ''-c'', ''x''] [])
       = (Normal (), (initial_state [''x''] [])\<lparr>pyrun_bytecode := 1, pyrun_as_string := 1\<rparr>)
   \<and> adjust_mode ''x''
         (fst (select_mode ((initial_state [''x''] [])
                 \<lparr>pyrun_bytecode := 1, pyrun_as_string := 1\<rparr>) ''x'')) = ''string''"
proof -
  have g1: "getopt (drop 1 [''pyrun'', ''-c'', ''-m'', ''x'']) valid_options
              = Inr ([(''-c'', []), (''-m'', [])], [''x''])"
    by (simp add: getopt_c_m_x)
  have p1: "pyrun_parse_cmdline example_platform
                 (initial_state [''pyrun'', ''-c'', ''-m'', ''x''] [])
               = (Normal (), (initial_state [''x''] [])
                    \<lparr>pyrun_as_string := 1, pyrun_as_module := 1\<rparr>)"
    by (simp add: pyrun_parse_cmdline_def getopt_c_m_x initial_state_def)
  have s1: "pyrun_startup example_platform (initial_state [''pyrun'', ''-c'', ''-m'', ''x''] [])
       = (Normal (), (initial_state [''x''] [])\<lparr>pyrun_as_string := 1, pyrun_as_module := 1\<rparr>)"
    by (rule startup_quiet [OF p1]) (simp_all add: initial_state_def example_facts)
  have g2: "getopt (drop 1 [''pyrun'', ''-b'', ''-c'', ''x'']) valid_options
              = Inr ([(''-b'', []), (''-c'', [])], [''x''])"
    by (simp add: getopt_b_c_x)
  have p2: "pyrun_parse_cmdline example_platform
                 (initial_state [''pyrun'', ''-b'', ''-c'', ''x''] [])
               = (Normal (), (initial_state [''x''] [])
                    \<lparr>pyrun_bytecode := 1, pyrun_as_string := 1\<rparr>)"
    by (simp add: pyrun_parse_cmdline_def getopt_b_c_x initial_state_def)
  have s2: "pyrun_startup example_platform (initial_state [''pyrun'', ''-b'', ''-c'', ''x''] [])
       = (Normal (), (initial_state [''x''] [])\<lparr>pyrun_bytecode := 1, pyrun_as_string := 1\<rparr>)"
    by (rule startup_quiet [OF p2]) (simp_all add: initial_state_def example_facts)
  from mode_precedence [OF g1 s1, of "''x''"] mode_precedence [OF g2 s2, of "''x''"] g1 s1 g2 s2
  show ?thesis by simp
qed

section \<open>Unrecognised flags\<close>

text \<open>
  Claim C5 says that every argument vector containing an unrecognised flag ends in help
  text and exit status 1. In \<^verbatim>\<open>pyrun foo.py -x\<close> the letter \<^verbatim>\<open>x\<close> is not in the flag alphabet,
  yet the run executes \<^verbatim>\<open>foo.py\<close> with \<^verbatim>\<open>-x\<close> as its parameter, writes nothing to the
  diagnostic stream and exits with status 0.
\<close>

theorem unrecognized_after_script_is_passed_on:
  "short_has_arg CHR ''x'' valid_options = Inl ''option -x not recognized''
   \<and> pyrun_main example_platform (initial_state [''pyrun'', ''foo.py'', ''-x''] []) =
     (SystemExit 0,
      (initial_state [''foo.py'', ''-x''] example_search_path)
        \<lparr>dunder_file := Some ''foo.py'',
         events := [AddSiteDir ''/opt/pyrun/lib/python2.7/site-packages'', SiteMain,
                    ExecFile ''foo.py'']\<rparr>)
   \<and> stderr (snd (pyrun_main example_platform (initial_state [''pyrun'', ''foo.py'', ''-x''] [])))
       = []"
proof -
  let ?P = "example_platform\<lparr>execfile := (\<lambda>file s. (Normal (), s))\<rparr>"
  let ?s1 = "initial_state [''foo.py'', ''-x''] []"
  have parse: "pyrun_parse_cmdline ?P (initial_state [''pyrun'', ''foo.py'', ''-x''] [])
                 = (Normal (), ?s1)"
    by (simp add: pyrun_parse_cmdline_def getopt_foo_x initial_state_def)
  have fl: "pyrun_unbuffered ?s1 = 0" "pyrun_debug ?s1 = 0" "pyrun_verbose ?s1 = 0"
    "pyrun_ignore_environment ?s1 = 0" "pyrun_ignore_pth_files ?s1 = 0"
    "pyrun_skip_site_main ?s1 = 0" "pyrun_as_module ?s1 = 0" "pyrun_as_string ?s1 = 0"
    "sys_argv ?s1 = ''foo.py'' # [''-x'']"
    by (simp_all add: initial_state_def)
  note run = example_main_file [OF parse fl]
  have "pyrun_main ?P (initial_state [''pyrun'', ''foo.py'', ''-x''] []) =
     (SystemExit 0,
      (initial_state [''foo.py'', ''-x''] example_search_path)
        \<lparr>dunder_file := Some ''foo.py'',
         events := [AddSiteDir ''/opt/pyrun/lib/python2.7/site-packages'', SiteMain,
                    ExecFile ''foo.py'']\<rparr>)"
    unfolding run(1) run_target_def run(2)
    by (simp add: finish_def initial_state_def)
  then have m: "pyrun_main example_platform (initial_state [''pyrun'', ''foo.py'', ''-x''] []) =
     (SystemExit 0,
      (initial_state [''foo.py'', ''-x''] example_search_path)
        \<lparr>dunder_file := Some ''foo.py'',
         events := [AddSiteDir ''/opt/pyrun/lib/python2.7/site-packages'', SiteMain,
                    ExecFile ''foo.py'']\<rparr>)"
    using example_platform_execfile by simp
  show ?thesis
    unfolding m by (simp add: valid_options_def initial_state_def)
qed

text \<open>
  Claim C5, amended. When an option outside the flag alphabet occurs in the leading run of
  option tokens (before the first positional argument and before any \<^verbatim>\<open>--\<close>), parsing
  writes the help text to the diagnostic stream, followed by the line
  \<^verbatim>\<open>*** Problem parsing command line: option <flag> not recognized\<close> for the first such
  option, and the run ends there with exit status 1, whatever recognised flags stand
  before it.
\<close>

theorem unrecognized_option_exits_1:
  "unrecognized (drop 1 (sys_argv s)) = Some opt \<Longrightarrow>
   pyrun_parse_cmdline plat s =
     (Raise (SystemExit 1),
      s\<lparr>stderr := stderr s @ write_lines
          (splitlines (help_format (pyrun_name (config plat)) (pyrun_version (config plat)))
           @ [''*** Problem parsing command line: option '' @ opt @ '' not recognized''])\<rparr>)
   \<and> pyrun_main plat s =
     (SystemExit 1,
      s\<lparr>stderr := stderr s @ write_lines
          (splitlines (help_format (pyrun_name (config plat)) (pyrun_version (config plat)))
           @ [''*** Problem parsing command line: option '' @ opt @ '' not recognized''])\<rparr>)"
  unfolding pyrun_main_def pyrun_startup_def pyrun_parse_cmdline_def getopt_def
  by (simp add: getopt_loop_unrecognized pyrun_help_def)

text \<open>The command line \<^verbatim>\<open>pyrun -v -x foo.py\<close>.\<close>

theorem unrecognized_option_exits_1_witness:
  "unrecognized (drop 1 (sys_argv (initial_state [''pyrun'', ''-v'', ''-x'', ''foo.py''] [])))
     = Some ''-x''
   \<and> pyrun_main example_platform (initial_state [''pyrun'', ''-v'', ''-x'', ''foo.py''] [])
     = (SystemExit 1,
        (initial_state [''pyrun'', ''-v'', ''-x'', ''foo.py''] [])
          \<lparr>stderr := write_lines
             (splitlines (help_format ''pyrun'' ''2.6.0'')
              @ [''*** Problem parsing command line: option -x not recognized''])\<rparr>)"
proof -
  have h: "unrecognized (drop 1 (sys_argv (initial_state [''pyrun'', ''-v'', ''-x'', ''foo.py''] [])))
             = Some ''-x''"
    by (simp add: initial_state_def is_option_token_def startswith_def valid_options_def)
  from unrecognized_option_exits_1 [OF h, of example_platform] h show ?thesis
    by (simp add: example_facts example_config_def initial_state_def)
qed

section \<open>The interactive flag and failures of the target\<close>





text \<open>
  Claim C10. A failure of the target that is not an instance of \<^verbatim>\<open>Exception\<close> (a
  \<open>SystemExit\<close>, a \<open>KeyboardInterrupt\<close>) passes the driver's handler whatever the
  interactive flag is: the \<^verbatim>\<open>try\<close> statement raises it again with the state unchanged, no
  trace is printed, the prompt is not entered, and the process ends with that failure.
\<close>

theorem base_exception_not_diverted:
  assumes "pyrun_startup plat s0 = (Normal (), s)"
    and "sys_argv s = pyrun_script # params"
    and "select_mode s pyrun_script = (mode, script_path)"
    and "pyrun_execute_script plat pyrun_script mode
           (site_step plat (pyrun_setup_sys_path plat script_path s)) = (Raise e, s')"
    and "\<not> is_Exception e"
  shows "run_target plat pyrun_script mode
           (site_step plat (pyrun_setup_sys_path plat script_path s)) = (Raise e, s')
       \<and> pyrun_main plat s0 = (e, s')"
proof -
  have r: "run_target plat pyrun_script mode
           (site_step plat (pyrun_setup_sys_path plat script_path s)) = (Raise e, s')"
    using assms(4,5) by (simp add: run_target_def)
  show ?thesis
    unfolding main_with_mode [OF assms(1-3)] r by (simp add: finish_def)
qed

text \<open>The command line \<^verbatim>\<open>pyrun -i foo.py\<close> with a script that is interrupted.\<close>

theorem base_exception_not_diverted_witness:
  "\<not> is_Exception KeyboardInterrupt
   \<and> pyrun_main interrupted_platform (initial_state [''pyrun'', ''-i'', ''foo.py''] []) =
     (KeyboardInterrupt,
      (initial_state [''foo.py''] example_search_path)
        \<lparr>pyrun_interactive := 1, dunder_file := Some ''foo.py'',
         events := [AddSiteDir ''/opt/pyrun/lib/python2.7/site-packages'', SiteMain,
                    ExecFile ''foo.py'']\<rparr>)"
proof -
  let ?P = "example_platform\<lparr>execfile := (\<lambda>file s. (Raise KeyboardInterrupt, s))\<rparr>"
  let ?s1 = "(initial_state [''foo.py''] [])\<lparr>pyrun_interactive := 1\<rparr>"
  have fl: "pyrun_unbuffered ?s1 = 0" "pyrun_debug ?s1 = 0" "pyrun_verbose ?s1 = 0"
    "pyrun_ignore_environment ?s1 = 0" "pyrun_ignore_pth_files ?s1 = 0"
    "pyrun_skip_site_main ?s1 = 0"
    by (simp_all add: initial_state_def)
  have st: "pyrun_startup ?P (initial_state [''pyrun'', ''-i'', ''foo.py''] []) = (Normal (), ?s1)"
    by (rule example_startup [OF parse_i_foo fl(1) fl(2)])
  have argv: "sys_argv ?s1 = ''foo.py'' # []"
    by (simp add: initial_state_def)
  have sel: "select_mode ?s1 ''foo.py'' = (''file'', Some ''foo.py'')"
    by (simp add: select_mode_def initial_state_def)
  have run: "pyrun_execute_script ?P ''foo.py'' ''file''
               (site_step ?P (pyrun_setup_sys_path ?P (Some ''foo.py'') ?s1)) =
             (Raise KeyboardInterrupt,
              ?s1\<lparr>sys_path := example_search_path, dunder_file := Some ''foo.py'',
                  events := events ?s1
                    @ [AddSiteDir ''/opt/pyrun/lib/python2.7/site-packages'', SiteMain,
                       ExecFile ''foo.py'']\<rparr>)"
    by (rule example_execute_file [OF fl(2-6)])
  have n: "\<not> is_Exception KeyboardInterrupt" by simp
  from base_exception_not_diverted [OF st argv sel run n] show ?thesis
    by (simp add: interrupted_platform_def initial_state_def)
qed


section \<open>Bytecode files\<close>

text \<open>
  Claim C7. When a readable file is run as a bytecode file (mode \<^verbatim>\<open>'codefile'\<close>, or mode
  \<^verbatim>\<open>'file'\<close> with a name ending in \<^verbatim>\<open>.pyc\<close> or \<^verbatim>\<open>.pyo\<close>) and its first four bytes differ from
  the magic number, the launcher logs the one error line
  \<^verbatim>\<open>Incompatible bytecode file '<ref>'\<close> naming the file and exits with status 1. The line
  follows whatever the debug and verbose options logged before the file was opened;
  nothing is unmarshalled or executed, \<^verbatim>\<open>__file__\<close> is not rebound, and the driver's
  handler lets the exit pass.
\<close>

theorem incompatible_bytecode_exits_1:
  assumes "adjust_mode pyrun_script mode = ''codefile''"
    and "access_R_OK plat pyrun_script"
    and "file_bytes plat pyrun_script = Some bytes"
    and "take 4 bytes \<noteq> get_magic plat"
  shows "fst (pyrun_execute_script plat pyrun_script mode s) = Raise (SystemExit 1)
    \<and> stderr (snd (pyrun_execute_script plat pyrun_script mode s)) =
        stderr s
        @ (if pyrun_debug s \<noteq> 0
           then [pyrun_name (config plat) @ '': sys.argv='' @ repr_list (sys_argv s) @ ''\<newline>'',
                 pyrun_name (config plat) @ '': sys.path='' @ repr_list (sys_path s) @ ''\<newline>'',
                 pyrun_name (config plat) @ '': globals()='' @ repr_globals plat s @ ''\<newline>'']
           else [])
        @ (if pyrun_verbose s \<noteq> 0
           then [pyrun_name (config plat) @ '': Running '' @ py_repr pyrun_script
                   @ '' as bytecode file\<newline>'']
           else [])
        @ [pyrun_name (config plat) @ '' error: Incompatible bytecode file ''
             @ py_repr pyrun_script @ ''\<newline>'']
    \<and> events (snd (pyrun_execute_script plat pyrun_script mode s)) = events s
    \<and> dunder_file (snd (pyrun_execute_script plat pyrun_script mode s)) = dunder_file s
    \<and> finish (run_target plat pyrun_script mode s) =
        (SystemExit 1, snd (pyrun_execute_script plat pyrun_script mode s))"
proof -
  have a: "fst (pyrun_execute_script plat pyrun_script mode s) = Raise (SystemExit 1)
    \<and> stderr (snd (pyrun_execute_script plat pyrun_script mode s)) =
        stderr s
        @ (if pyrun_debug s \<noteq> 0
           then [pyrun_name (config plat) @ '': sys.argv='' @ repr_list (sys_argv s) @ ''\<newline>'',
                 pyrun_name (config plat) @ '': sys.path='' @ repr_list (sys_path s) @ ''\<newline>'',
                 pyrun_name (config plat) @ '': globals()='' @ repr_globals plat s @ ''\<newline>'']
           else [])
        @ (if pyrun_verbose s \<noteq> 0
           then [pyrun_name (config plat) @ '': Running '' @ py_repr pyrun_script
                   @ '' as bytecode file\<newline>'']
           else [])
        @ [pyrun_name (config plat) @ '' error: Incompatible bytecode file ''
             @ py_repr pyrun_script @ ''\<newline>'']
    \<and> events (snd (pyrun_execute_script plat pyrun_script mode s)) = events s
    \<and> dunder_file (snd (pyrun_execute_script plat pyrun_script mode s)) = dunder_file s"
    using assms
    by (cases "pyrun_debug s = 0"; cases "pyrun_verbose s = 0";
        simp add: pyrun_execute_script_def run_bytecode_def pyrun_log_def pyrun_log_error_def
          Let_def)
  obtain r s' where rs: "pyrun_execute_script plat pyrun_script mode s = (r, s')"
    by (cases "pyrun_execute_script plat pyrun_script mode s")
  with a have "r = Raise (SystemExit 1)" by simp
  with rs have "finish (run_target plat pyrun_script mode s) = (SystemExit 1, s')"
    by (simp add: run_target_def finish_def)
  with a rs show ?thesis by simp
qed

text \<open>The file \<^verbatim>\<open>bad.pyc\<close>, run in the default mode.\<close>

theorem incompatible_bytecode_exits_1_witness:
  "fst (pyrun_execute_script example_platform ''bad.pyc'' ''file'' (initial_state [''bad.pyc''] []))
     = Raise (SystemExit 1)
   \<and> stderr (snd (pyrun_execute_script example_platform ''bad.pyc'' ''file''
                     (initial_state [''bad.pyc''] [])))
     = [''pyrun error: Incompatible bytecode file '' @ [CHR 0x27] @ ''bad.pyc'' @ [CHR 0x27]
          @ ''\<newline>'']
   \<and> events (snd (pyrun_execute_script example_platform ''bad.pyc'' ''file''
                     (initial_state [''bad.pyc''] []))) = []"
proof -
  have h: "adjust_mode ''bad.pyc'' ''file'' = ''codefile''"
    "access_R_OK example_platform ''bad.pyc''"
    "file_bytes example_platform ''bad.pyc'' = Some ''XXXXtimepayload''"
    "take 4 ''XXXXtimepayload'' \<noteq> get_magic example_platform"
    by (simp_all add: adjust_mode_def endswith_def example_platform_def)
  have r: "py_repr ''bad.pyc'' = [CHR 0x27] @ ''bad.pyc'' @ [CHR 0x27]"
    by (simp add: py_repr_def repr_char_def Let_def)
  from incompatible_bytecode_exits_1 [OF h, of "initial_state [''bad.pyc''] []"] show ?thesis
    by (simp add: initial_state_def example_facts example_config_def r)
qed

text \<open>
  Claim C9 says that the file opened for bytecode reading is released on every exit path.
  Runs on the concrete installation: for \<^verbatim>\<open>bad.pyc\<close> (magic mismatch) the launcher exits
  with the file still open; for \<^verbatim>\<open>trunc.pyc\<close> (unmarshalling fails) the exception leaves
  \<open>pyrun_execute_script\<close> with the file still open, and with the interactive flag set
  the prompt is then entered while it is open; only for \<^verbatim>\<open>good.pyc\<close>, where
  \<^verbatim>\<open>module_file.close()\<close> is reached before the code runs, no file is open afterwards,
  whether the code ends normally or raises.
\<close>

theorem bytecode_file_left_open:
  "pyrun_execute_script example_platform ''bad.pyc'' ''file'' (initial_state [''bad.pyc''] [])
     = (Raise (SystemExit 1),
        (initial_state [''bad.pyc''] [])
          \<lparr>stderr := [''pyrun error: Incompatible bytecode file '' @ py_repr ''bad.pyc''
                         @ ''\<newline>''],
           open_files := [DiskFile ''bad.pyc'']\<rparr>)
   \<and> pyrun_execute_script example_platform ''trunc.pyc'' ''file'' (initial_state [''trunc.pyc''] [])
     = (Raise (Exception ''EOFError''),
        (initial_state [''trunc.pyc''] [])
          \<lparr>open_files := [DiskFile ''trunc.pyc''], events := [MarshalLoad []]\<rparr>)
   \<and> run_target example_platform ''trunc.pyc'' ''file''
         ((initial_state [''trunc.pyc''] [])\<lparr>pyrun_interactive := 1\<rparr>)
     = (Normal (),
        (initial_state [''trunc.pyc''] [])
          \<lparr>pyrun_interactive := 1,
           stderr := [''Traceback (most recent call last):\<newline>''],
           open_files := [DiskFile ''trunc.pyc''], dunder_file := Some ''<stdin>'',
           events := [MarshalLoad [], Interact []]\<rparr>)
   \<and> pyrun_execute_script example_platform ''good.pyc'' ''file'' (initial_state [''good.pyc''] [])
     = (Normal (),
        (initial_state [''good.pyc''] [])
          \<lparr>open_files := [], dunder_file := Some ''good.pyc'',
           events := [MarshalLoad ''payload'', ExecCode ''code'']\<rparr>)
   \<and> pyrun_execute_script crashing_platform ''good.pyc'' ''file'' (initial_state [''good.pyc''] [])
     = (Raise (Exception ''RuntimeError''),
        (initial_state [''good.pyc''] [])
          \<lparr>open_files := [], dunder_file := Some ''good.pyc'',
           events := [MarshalLoad ''payload'', ExecCode ''code'']\<rparr>)"
proof -
  let ?C = "example_platform\<lparr>exec_code := (\<lambda>code s. (Raise (Exception ''RuntimeError''), s))\<rparr>"
  let ?i = "(initial_state [''trunc.pyc''] [])\<lparr>pyrun_interactive := 1\<rparr>"
  have q: "pyrun_debug (initial_state argv []) = 0" "pyrun_verbose (initial_state argv []) = 0"
    for argv by (simp_all add: initial_state_def)
  have qi: "pyrun_debug ?i = 0" "pyrun_verbose ?i = 0"
    by (simp_all add: initial_state_def)
  have m: "adjust_mode ''bad.pyc'' ''file'' = ''codefile''"
    "adjust_mode ''trunc.pyc'' ''file'' = ''codefile''"
    "adjust_mode ''good.pyc'' ''file'' = ''codefile''"
    by (simp_all add: adjust_mode_def endswith_def)
  have a: "access_R_OK example_platform ''bad.pyc''" "access_R_OK example_platform ''trunc.pyc''"
    "access_R_OK example_platform ''good.pyc''" "access_R_OK ?C ''good.pyc''"
    by (simp_all add: example_platform_def)
  have b: "file_bytes example_platform ''bad.pyc'' = Some ''XXXXtimepayload''"
    "file_bytes example_platform ''trunc.pyc''
       = Some ([CHR 0x03, CHR 0xF3, CHR 0x0D, CHR 0x0A] @ ''time'')"
    "file_bytes example_platform ''good.pyc''
       = Some ([CHR 0x03, CHR 0xF3, CHR 0x0D, CHR 0x0A] @ ''timepayload'')"
    "file_bytes ?C ''good.pyc''
       = Some ([CHR 0x03, CHR 0xF3, CHR 0x0D, CHR 0x0A] @ ''timepayload'')"
    by (simp_all add: example_platform_def)
  have x: "get_magic example_platform = [CHR 0x03, CHR 0xF3, CHR 0x0D, CHR 0x0A]"
    "marshal_load example_platform [] = Raise (Exception ''EOFError'')"
    "marshal_load example_platform ''payload'' = Normal ''code''"
    "exec_code example_platform = (\<lambda>code s. (Normal (), s))"
    by (simp_all add: example_platform_def)
  show ?thesis
    unfolding crashing_platform_def run_target_def
      execute_codefile_quiet [OF q m(1) a(1) b(1)]
      execute_codefile_quiet [OF q m(2) a(2) b(2)]
      execute_codefile_quiet [OF qi m(2) a(2) b(2)]
      execute_codefile_quiet [OF q m(3) a(3) b(3)]
      execute_codefile_quiet [OF q m(3) a(4) b(4)]
    by (simp add: run_bytecode_def x pyrun_log_error_def initial_state_def example_facts
          example_config_def pyrun_prompt_def print_exc_def Let_def)
qed


section \<open>Path normalisation and the home directory\<close>

text \<open>
  Claim C8. With \<^verbatim>\<open>HOME\<close> set to \<^verbatim>\<open>/home/u\<close>, \<open>pyrun_normpath\<close> maps \<^verbatim>\<open>~\<close> to \<^verbatim>\<open>/home/u\<close> and
  \<^verbatim>\<open>~/x\<close> to \<^verbatim>\<open>/home/u/x\<close>; the latter also when the value of \<^verbatim>\<open>HOME\<close> ends with the
  separator. With \<^verbatim>\<open>HOME\<close> unset, \<^verbatim>\<open>~\<close> is mapped to the absolute form of the literal
  \<^verbatim>\<open>~\<close> below the current directory. The function has no failing branch.
\<close>

theorem pyrun_normpath_home:
  "(environ plat ''HOME'' = Some ''/home/u'' \<longrightarrow>
      pyrun_normpath plat ''~'' = ''/home/u'' \<and> pyrun_normpath plat ''~/x'' = ''/home/u/x'')
   \<and> (environ plat ''HOME'' = Some ''/home/u/'' \<longrightarrow>
      pyrun_normpath plat ''~/x'' = ''/home/u/x'')
   \<and> (environ plat ''HOME'' = None \<longrightarrow>
      pyrun_normpath plat ''~'' = abspath (getcwd plat) ''~'')"
  by (simp add: pyrun_normpath_def strip_def isspace_def abspath_def isabs_def startswith_def
        endswith_def normpath_home_u normpath_home_u_x)

text \<open>The concrete installation, started in \<^verbatim>\<open>/work\<close>, with the three settings of \<^verbatim>\<open>HOME\<close>.\<close>

theorem pyrun_normpath_home_witness:
  "pyrun_normpath example_platform ''~'' = ''/home/u''
   \<and> pyrun_normpath example_platform ''~/x'' = ''/home/u/x''
   \<and> pyrun_normpath (example_platform\<lparr>environ := [''HOME'' \<mapsto> ''/home/u/'']\<rparr>) ''~/x''
       = ''/home/u/x''
   \<and> pyrun_normpath (example_platform\<lparr>environ := Map.empty\<rparr>) ''~'' = ''/work/~''"
proof -
  have cwd: "abspath ''/work'' ''~'' = ''/work/~''"
    by (simp add: abspath_def isabs_def startswith_def path_join_def join_step_def
          endswith_def normpath_def Let_def)
  show ?thesis
    using pyrun_normpath_home [of example_platform]
      pyrun_normpath_home [of "example_platform\<lparr>environ := [''HOME'' \<mapsto> ''/home/u/'']\<rparr>"]
      pyrun_normpath_home [of "example_platform\<lparr>environ := Map.empty\<rparr>"]
    by (simp add: example_platform_def cwd)
qed

end
